theory Spec2Isabelle
  imports Main "HOL-Library.Word"
begin

unbundle bit_operations_syntax

section \<open>The EIT section filter of VDR (eit.c)\<close>

text \<open>
  A shallow embedding of \<^verbatim>\<open>eit.c\<close>: the table tracker \<^verbatim>\<open>cEitTables\<close>, the
  section reconciler \<^verbatim>\<open>cEIT::cEIT\<close> and the clock synchroniser \<^verbatim>\<open>cTDT::cTDT\<close>.
  Times (\<^verbatim>\<open>time_t\<close>) are integers, table ids and version numbers (\<^verbatim>\<open>uchar\<close>) are
  8-bit words, section numbers are natural numbers.
\<close>

type_synonym time_t = int
type_synonym uchar = "8 word"

subsection \<open>cTDT: clock synchronisation\<close>

definition MAX_TIME_DIFF :: int where "MAX_TIME_DIFF = 1"
definition MAX_ADJ_DIFF :: int where "MAX_ADJ_DIFF = 10"
definition ADJ_DELTA :: int where "ADJ_DELTA = 300"

text \<open>
  The static members of \<^verbatim>\<open>cTDT\<close> (the mutex is not modelled: one call runs at a time).
\<close>

record tdt_state =
  lastAdj :: time_t
  oldTime :: time_t
  oldDiff :: int

text \<open>
  What the constructor asks of the operating system: nothing, \<^verbatim>\<open>clock_settime\<close> to the
  broadcast time, or \<^verbatim>\<open>adjtime\<close> by a number of seconds.
\<close>

datatype clock_action = NoAction | ClockSetTime time_t | AdjTime int

text \<open>
  \<^verbatim>\<open>int diff = dvbtim - loctim\<close>: the difference of two \<^verbatim>\<open>time_t\<close> values is
  converted to a 32-bit \<^verbatim>\<open>int\<close>, which keeps the low 32 bits in two's complement.
  \<^verbatim>\<open>abs(diff)\<close> negates a negative \<^verbatim>\<open>int\<close> in 32 bits: C leaves \<^verbatim>\<open>abs\<close> of the least
  \<^verbatim>\<open>int\<close> undefined, and as compiled it returns the least \<^verbatim>\<open>int\<close> itself, a negative
  number; the model follows the compiled code.
\<close>

definition to_int32 :: "int \<Rightarrow> int" where
  "to_int32 x = (x + 2 ^ 31) mod 2 ^ 32 - 2 ^ 31"

definition tdt_diff :: "time_t \<Rightarrow> time_t \<Rightarrow> int" where
  "tdt_diff dvbtim loctim = to_int32 (dvbtim - loctim)"

definition c_abs :: "int \<Rightarrow> int" where
  "c_abs d = to_int32 (if d < 0 then - d else d)"

text \<open>
  The body of \<^verbatim>\<open>cTDT::cTDT\<close>. \<open>dvbtim\<close> is \<^verbatim>\<open>getTime()\<close>, \<open>loctim\<close> the first
  \<^verbatim>\<open>time(NULL)\<close>; \<open>tcheck\<close> and \<open>tset\<close> are the two later readings of
  \<^verbatim>\<open>time(NULL)\<close> in the smoothing branch (the test against \<^verbatim>\<open>lastAdj\<close> and the
  assignment to it). The outcome of \<^verbatim>\<open>clock_settime\<close> and \<^verbatim>\<open>adjtime\<close> only selects
  a log message, so it is not part of the model.
\<close>

definition cTDT :: "tdt_state \<Rightarrow> time_t \<Rightarrow> time_t \<Rightarrow> time_t \<Rightarrow> time_t \<Rightarrow> tdt_state \<times> clock_action" where
  "cTDT st dvbtim loctim tcheck tset =
     (let diff = tdt_diff dvbtim loctim in
      if c_abs diff > MAX_TIME_DIFF then
        (let (st1, act) =
               (if oldTime st \<noteq> dvbtim \<and> oldDiff st = diff then
                  (if c_abs diff > MAX_ADJ_DIFF then (st, ClockSetTime dvbtim)
                   else if tcheck - lastAdj st > ADJ_DELTA then (st\<lparr>lastAdj := tset\<rparr>, AdjTime diff)
                   else (st, NoAction))
                else (st, NoAction))
         in (st1\<lparr>oldTime := dvbtim, oldDiff := diff\<rparr>, act))
      else (st, NoAction))"





subsection \<open>Decoded sections\<close>

text \<open>
  The running status values of \<^verbatim>\<open>SI::RunningStatus\<close>, in the order the specification's
  glossary lists them.
\<close>

definition RunningStatusUndefined :: int where "RunningStatusUndefined = 0"
definition RunningStatusNotRunning :: int where "RunningStatusNotRunning = 1"
definition RunningStatusStartsInAFewSeconds :: int where "RunningStatusStartsInAFewSeconds = 2"
definition RunningStatusPausing :: int where "RunningStatusPausing = 3"
definition RunningStatusRunning :: int where "RunningStatusRunning = 4"

text \<open>
  The descriptor kinds the reconciler consumes, as the section parser hands them over.
\<close>

datatype descriptor =
    ShortEventDescriptor string string string
  | ExtendedEventDescriptor string nat nat string
  | ContentDescriptor "(nat \<times> nat) list"
  | ParentalRatingDescriptor "(string \<times> nat) list"
  | PDCDescriptor nat nat nat nat
  | TimeShiftedEventDescriptor nat nat
  | LinkageDescriptor nat nat nat nat string
  | ComponentDescriptor nat nat nat string string
  | OtherDescriptor nat

text \<open>
  One record of the event loop (\<^verbatim>\<open>SI::EIT::Event\<close>) with the values its getters return.
\<close>

record si_event =
  getEventId :: nat
  getStartTime :: time_t
  getDuration :: int
  getRunningStatus :: int
  eventDescriptors :: "descriptor list"

text \<open>
  The header fields of a parsed section (\<^verbatim>\<open>SI::EIT\<close>) and its event loop.
\<close>

record si_section =
  getOriginalNetworkId :: nat
  getTransportStreamId :: nat
  getServiceId :: nat
  getVersionNumber :: uchar
  getSectionNumber :: nat
  getLastSectionNumber :: nat
  getSegmentLastSectionNumber :: nat
  getLastTableId :: uchar
  eventLoop :: "si_event list"

subsection \<open>Events and schedules\<close>

text \<open>
  \<^verbatim>\<open>cEvent\<close>: the fields the reconciler reads and writes. The recording timer of an
  event only selects a log line (\<^verbatim>\<open>HasTimer\<close>, \<^verbatim>\<open>dsyslog\<close>) and is left out.
\<close>

record cEvent =
  eventID :: nat
  startTime :: time_t
  duration :: int
  tableID :: uchar
  version :: uchar
  runningStatus :: int
  seen :: bool
  title :: "string option"
  shortText :: "string option"
  description :: "string option"
  contents :: "nat list"
  parentalRating :: int
  vps :: time_t
  components :: "(nat \<times> nat \<times> string \<times> string) list"

text \<open>
  Modelled from the spec: the constructor \<^verbatim>\<open>cEvent(EventID)\<close> is declared in epg.h and not
  part of eit.c. A new event carries the given id, no texts, running status undefined and is
  not marked seen; its provenance marker and version are 0xFF, above every table id the
  filter lets through, so that the first write stamps them (the specification: values below
  0x4E are never produced by this decoder).
\<close>

definition new_cEvent :: "nat \<Rightarrow> cEvent" where
  "new_cEvent EventID =
     \<lparr> eventID = EventID, startTime = 0, duration = 0, tableID = 0xFF, version = 0xFF,
       runningStatus = RunningStatusUndefined, seen = False, title = None, shortText = None,
       description = None, contents = [], parentalRating = 0, vps = 0, components = [] \<rparr>"

text \<open>
  \<^verbatim>\<open>cSchedule\<close>: the events in list order, whether the schedule has seen data of the
  tables 0x5X, and the "present seen" mark.
\<close>

record cSchedule =
  events :: "cEvent list"
  onActualTp :: bool
  presentSeen :: bool

definition new_cSchedule :: cSchedule where
  "new_cSchedule = \<lparr> events = [], onActualTp = False, presentSeen = False \<rparr>"

text \<open>
  Modelled from the spec: the lookups and \<^verbatim>\<open>AddEvent\<close> of \<^verbatim>\<open>cSchedule\<close> are defined in
  epg.c. An event is a pointer in the source; here it is the index of the event in the
  schedule's list. Lookup by event id and lookup by exact start time return the first event
  that matches; a new event is added at the end.
\<close>

fun find_index_from :: "('a \<Rightarrow> bool) \<Rightarrow> nat \<Rightarrow> 'a list \<Rightarrow> nat option" where
  "find_index_from P i [] = None"
| "find_index_from P i (x # xs) = (if P x then Some i else find_index_from P (Suc i) xs)"

definition GetEventById :: "cSchedule \<Rightarrow> nat \<Rightarrow> nat option" where
  "GetEventById s EventID = find_index_from (\<lambda>e. eventID e = EventID) 0 (events s)"

definition GetEventByTime :: "cSchedule \<Rightarrow> time_t \<Rightarrow> nat option" where
  "GetEventByTime s StartTime = find_index_from (\<lambda>e. startTime e = StartTime) 0 (events s)"

definition AddEvent :: "cSchedule \<Rightarrow> cEvent \<Rightarrow> cSchedule" where
  "AddEvent s e = s\<lparr>events := events s @ [e]\<rparr>"

text \<open>
  Modelled from the spec: \<^verbatim>\<open>cSchedule::OnActualTp\<close> is defined in epg.c. The schedule
  remembers that it has received data of a table 0x5X, and reports whether it ever has.
\<close>

definition OnActualTp :: "cSchedule \<Rightarrow> uchar \<Rightarrow> bool \<times> cSchedule" where
  "OnActualTp s TableId =
     (let s1 = (if TableId AND 0xF0 = 0x50 then s\<lparr>onActualTp := True\<rparr> else s)
      in (onActualTp s1, s1))"

subsection \<open>cSectionSyncer and cEitTables\<close>

text \<open>
  Modelled from the spec: \<^verbatim>\<open>cSectionSyncer\<close> is defined in filter.c. It holds the version
  last seen, the section numbers marked seen for that version and the two "last" bounds.
  \<open>Check\<close> resets the state on a new version and answers whether the section is still
  to be processed; \<open>Processed\<close> marks the section seen, stores the bounds and answers
  whether every section number from 0 to the last section number has been marked. The
  segment bound is stored; the specification does not say how it enters that test, and no
  property below depends on it.
\<close>

record cSectionSyncer =
  currentVersion :: "uchar option"
  sections :: "nat list"
  lastSection :: nat
  segmentLastSection :: nat
  syncerComplete :: bool

definition new_cSectionSyncer :: cSectionSyncer where
  "new_cSectionSyncer =
     \<lparr> currentVersion = None, sections = [], lastSection = 0, segmentLastSection = 0,
       syncerComplete = False \<rparr>"

definition syncer_Check :: "cSectionSyncer \<Rightarrow> uchar \<Rightarrow> nat \<Rightarrow> bool \<times> cSectionSyncer" where
  "syncer_Check s Version SectionNumber =
     (let s1 = (if currentVersion s \<noteq> Some Version
                then new_cSectionSyncer\<lparr>currentVersion := Some Version\<rparr> else s)
      in (SectionNumber \<notin> set (sections s1), s1))"

definition syncer_Processed :: "cSectionSyncer \<Rightarrow> nat \<Rightarrow> nat \<Rightarrow> nat \<Rightarrow> bool \<times> cSectionSyncer" where
  "syncer_Processed s SectionNumber LastSectionNumber SegmentLastSectionNumber =
     (let seen1 = SectionNumber # sections s;
          c = list_all (\<lambda>n. n \<in> set seen1) [0 ..< Suc LastSectionNumber]
      in (c, s\<lparr>sections := seen1, lastSection := LastSectionNumber,
               segmentLastSection := SegmentLastSectionNumber, syncerComplete := c\<rparr>))"

definition syncer_Complete :: "cSectionSyncer \<Rightarrow> bool" where
  "syncer_Complete s = syncerComplete s"

text \<open>
  \<^verbatim>\<open>cEitTables\<close>: one syncer per table index, the completeness flag and the cached start
  and end of table 0x4E.
\<close>

record cEitTables =
  sectionSyncer :: "nat \<Rightarrow> cSectionSyncer"
  tableStart :: time_t
  tableEnd :: time_t
  complete :: bool

definition new_cEitTables :: cEitTables where
  "new_cEitTables =
     \<lparr> sectionSyncer = (\<lambda>_. new_cSectionSyncer), tableStart = 0, tableEnd = 0, complete = False \<rparr>"

text \<open>
  Modelled from the spec: \<^verbatim>\<open>Index\<close> is declared in eit.h. The slots are the table ids
  0x4E, 0x50..0x5F, 0x60..0x6F in this order.
\<close>

definition Index :: "uchar \<Rightarrow> nat" where
  "Index TableId = (if TableId < 0x50 then 0 else unat TableId - 0x4F)"

definition cEitTables_Check :: "cEitTables \<Rightarrow> uchar \<Rightarrow> uchar \<Rightarrow> nat \<Rightarrow> bool \<times> cEitTables" where
  "cEitTables_Check t TableId Version SectionNumber =
     (let ti = Index TableId;
          (r, s1) = syncer_Check (sectionSyncer t ti) Version SectionNumber
      in (r, t\<lparr>sectionSyncer := (sectionSyncer t)(ti := s1)\<rparr>))"

definition cEitTables_Processed ::
  "cEitTables \<Rightarrow> uchar \<Rightarrow> uchar \<Rightarrow> nat \<Rightarrow> nat \<Rightarrow> nat \<Rightarrow> bool \<times> cEitTables" where
  "cEitTables_Processed t TableId LastTableId SectionNumber LastSectionNumber SegmentLastSectionNumber =
     (let ti = Index TableId;
          LastIndex = Index LastTableId;
          t1 = t\<lparr>complete := False\<rparr>;
          (r, s1) = syncer_Processed (sectionSyncer t1 ti) SectionNumber LastSectionNumber
                      SegmentLastSectionNumber;
          t2 = t1\<lparr>sectionSyncer := (sectionSyncer t1)(ti := s1)\<rparr>
      in if r then
           (if list_all (\<lambda>i. syncer_Complete (sectionSyncer t2 i)) [0 ..< Suc LastIndex]
            then (True, t2\<lparr>complete := True\<rparr>) else (True, t2))
         else (False, t2))"

text \<open>
  Modelled from the spec: the setters of the cached start and end are declared in eit.h; they
  store the time given.
\<close>

definition SetTableStart :: "cEitTables \<Rightarrow> time_t \<Rightarrow> cEitTables" where
  "SetTableStart t t0 = t\<lparr>tableStart := t0\<rparr>"

definition SetTableEnd :: "cEitTables \<Rightarrow> time_t \<Rightarrow> cEitTables" where
  "SetTableEnd t t0 = t\<lparr>tableEnd := t0\<rparr>"

subsection \<open>What cEIT reads from outside eit.c\<close>

text \<open>
  The constructor reads the clock, asks for the two state keys, resolves the channel and
  consults the EPG handlers. Each of these answers is an input of the model:
  \<^item> \<open>Now\<close> is \<^verbatim>\<open>time(NULL)\<close>, \<open>EPG_LINGER_TIME\<close> the macro of epg.h;
  \<^item> \<open>CheckCRCAndParse\<close>, \<open>ChannelsLock\<close> (\<^verbatim>\<open>GetChannelsWrite\<close> returned the list),
    \<open>ChannelKnown\<close> (\<^verbatim>\<open>GetByChannelID\<close> found the channel) and \<open>SchedulesLock\<close>;
  \<^item> the answers of \<^verbatim>\<open>EpgHandlers\<close>: \<open>IgnoreChannel\<close>, \<open>BeginSegmentTransfer\<close>,
    \<open>HandledExternally\<close>, \<open>HandleEitEvent\<close> and \<open>IsUpdate\<close>;
  \<^item> \<open>MergeDescriptors\<close> stands for lines 234 to 411 of eit.c, the loop over the event's
    descriptors and the setters that follow it: it maps the decoded event and the event
    being written to the event with title, short text, description, contents, parental
    rating, VPS time and components set, the hook \<^verbatim>\<open>FixEpgBugs\<close> included. It depends on
    the language preferences, the time zone, the channel list and other schedules, none of
    which is part of eit.c.
    \<open>MergeChannels\<close> tells whether that loop changed a channel (\<^verbatim>\<open>ChannelsModified\<close>).
\<close>

record epg_env =
  Now :: time_t
  EPG_LINGER_TIME :: int
  CheckCRCAndParse :: bool
  ChannelsLock :: bool
  ChannelKnown :: bool
  SchedulesLock :: bool
  IgnoreChannel :: bool
  BeginSegmentTransfer :: bool
  HandledExternally :: bool
  HandleEitEvent :: "cSchedule \<Rightarrow> si_event \<Rightarrow> uchar \<Rightarrow> uchar \<Rightarrow> bool"
  IsUpdate :: "nat \<Rightarrow> time_t \<Rightarrow> uchar \<Rightarrow> uchar \<Rightarrow> bool"
  MergeDescriptors :: "si_event \<Rightarrow> cEvent \<Rightarrow> cEvent"
  MergeChannels :: "si_event \<Rightarrow> bool"

definition VALID_TIME :: int where "VALID_TIME = 31536000 * 2"

text \<open>
  The calls the constructor makes on the schedule and on the handlers whose effect lies in
  epg.c. They are recorded in the order they are made, with their arguments; an event is
  named by its event id.
\<close>

datatype call =
    SetRunningStatus nat int
  | ClrRunningStatus
  | SetPresentSeen
  | HandleEvent nat
  | SortSchedule
  | DropOutdated time_t time_t uchar uchar
  | EndSegmentTransfer bool

text \<open>
  The local variables of the constructor that the event loop changes, with the schedule
  and the table tracker it works on.
\<close>

record loop_state =
  pSchedule :: cSchedule
  EitTables :: cEitTables
  Empty :: bool
  Modified :: bool
  ChannelsModified :: bool
  SegmentStart :: time_t
  SegmentEnd :: time_t
  calls :: "call list"

subsection \<open>cEIT: one event of the loop\<close>

text \<open>Lines 147 to 151: the events that are dropped as bogus.\<close>

definition bogus :: "si_event \<Rightarrow> bool" where
  "bogus ev = (getStartTime ev = 0 \<or> getStartTime ev > 0 \<and> getDuration ev = 0)"

text \<open>Lines 137 and 154: the events that ended before the linger limit.\<close>

definition LingerLimit :: "epg_env \<Rightarrow> time_t" where
  "LingerLimit env = Now env - EPG_LINGER_TIME env"

definition expired :: "epg_env \<Rightarrow> si_event \<Rightarrow> bool" where
  "expired env ev = (getStartTime ev + getDuration ev < LingerLimit env)"

text \<open>Lines 156 to 164: the start and end of the section, and the cache of table 0x4E.\<close>

definition track_segment :: "uchar \<Rightarrow> si_section \<Rightarrow> si_event \<Rightarrow> loop_state \<Rightarrow> loop_state" where
  "track_segment Tid sec ev st =
     (let st1 = (if SegmentStart st = 0 then st\<lparr>SegmentStart := getStartTime ev\<rparr> else st);
          st2 = st1\<lparr>SegmentEnd := getStartTime ev + getDuration ev\<rparr>
      in if Tid = 0x4E then
           (if getSectionNumber sec = 0
            then st2\<lparr>EitTables := SetTableStart (EitTables st2) (SegmentStart st2)\<rparr>
            else st2\<lparr>EitTables := SetTableEnd (EitTables st2) (SegmentEnd st2)\<rparr>)
         else st2)"

text \<open>Lines 168 to 171: the lookup of the existing event.\<close>

definition lookup_event :: "uchar \<Rightarrow> cSchedule \<Rightarrow> si_event \<Rightarrow> nat option" where
  "lookup_event Tid s ev =
     (if Tid = 0x4E \<or> Tid AND 0xF0 = 0x50 then GetEventById s (getEventId ev)
      else GetEventByTime s (getStartTime ev))"

text \<open>
  \<^verbatim>\<open>pEvent\<close> points either to an event of the schedule or, when the channel is handled
  externally, to a new event that is deleted at the end of the iteration. The model keeps
  the event being written as a value and the place it is written back to.
\<close>

datatype event_ref = InSchedule nat | Detached

definition put_event :: "event_ref \<Rightarrow> cEvent \<Rightarrow> loop_state \<Rightarrow> loop_state" where
  "put_event r e st =
     (case r of
        InSchedule i \<Rightarrow> st\<lparr>pSchedule := (pSchedule st)\<lparr>events := (events (pSchedule st))[i := e]\<rparr>\<rparr>
      | Detached \<Rightarrow> st)"

text \<open>
  Lines 172 to 197. The iteration either ends here (\<^verbatim>\<open>continue\<close>) or goes on with an
  event to write. Modelled from the spec: \<^verbatim>\<open>SetSeen\<close> marks the event seen, and the
  setters of \<^verbatim>\<open>EpgHandlers\<close> for event id, start time and duration write the field.
\<close>

datatype resolution = Continue loop_state | Write event_ref cEvent loop_state

definition resolve_event :: "epg_env \<Rightarrow> uchar \<Rightarrow> si_section \<Rightarrow> si_event \<Rightarrow> loop_state \<Rightarrow> resolution" where
  "resolve_event env Tid sec ev st =
     (let pEvent = lookup_event Tid (pSchedule st) ev;
          handledExternally = HandledExternally env
      in if pEvent = None \<or> handledExternally then
           (if handledExternally \<and>
               \<not> IsUpdate env (getEventId ev) (getStartTime ev) Tid (getVersionNumber sec)
            then Continue st
            else
              (let newEvent = (new_cEvent (getEventId ev))
                                \<lparr>startTime := getStartTime ev, duration := getDuration ev\<rparr>
               in if \<not> handledExternally
                  then Write (InSchedule (length (events (pSchedule st)))) newEvent
                         (st\<lparr>pSchedule := AddEvent (pSchedule st) newEvent\<rparr>)
                  else Write Detached newEvent st))
         else
           (case pEvent of
              None \<Rightarrow> Continue st
            | Some i \<Rightarrow>
                (let e1 = (events (pSchedule st) ! i)\<lparr>seen := True\<rparr>;
                     TableID = max (tableID e1) 0x4E
                 in if TableID = 0x4E \<and> Tid \<noteq> 0x4E
                    then Continue (put_event (InSchedule i) e1 st)
                    else Write (InSchedule i)
                           (e1\<lparr>eventID := getEventId ev, startTime := getStartTime ev,
                               duration := getDuration ev\<rparr>) st)))"

text \<open>Lines 198 and 199: the provenance marker.\<close>

definition stamp_table :: "uchar \<Rightarrow> cEvent \<Rightarrow> cEvent" where
  "stamp_table Tid e = (if tableID e > 0x4E then e\<lparr>tableID := Tid\<rparr> else e)"

text \<open>
  Lines 209 to 226: the status handed to \<^verbatim>\<open>SetRunningStatus\<close>, from the section number,
  the decoded status and the status the event has.
\<close>

definition override_status :: "nat \<Rightarrow> int \<Rightarrow> int \<Rightarrow> int" where
  "override_status SectionNo RunningStatus current =
     (if RunningStatus \<noteq> current then
        (if RunningStatus = RunningStatusNotRunning then
           (let OverrideStatus =
                  (if SectionNo = 0
                   then (if current = RunningStatusPausing then RunningStatusPausing else - 1)
                   else RunningStatusUndefined)
            in if OverrideStatus \<ge> 0 then OverrideStatus else RunningStatus)
         else RunningStatus)
      else RunningStatus)"

text \<open>
  The fields that the setters of lines 279 to 409 write (\<^verbatim>\<open>SetContents\<close>,
  \<^verbatim>\<open>SetParentalRating\<close>, \<^verbatim>\<open>SetVps\<close>, \<^verbatim>\<open>SetTitle\<close>, \<^verbatim>\<open>SetShortText\<close>,
  \<^verbatim>\<open>SetDescription\<close>, \<^verbatim>\<open>SetComponents\<close>) are taken from the result of
  \<open>MergeDescriptors\<close>; no other field of the event is touched by these lines.
\<close>

definition set_descriptor_fields :: "cEvent \<Rightarrow> cEvent \<Rightarrow> cEvent" where
  "set_descriptor_fields m e =
     e\<lparr>title := title m, shortText := shortText m, description := description m,
       contents := contents m, parentalRating := parentalRating m, vps := vps m,
       components := components m\<rparr>"

text \<open>
  Lines 198 to 417, from the provenance marker to the end of the iteration. Modelled from
  the spec: \<^verbatim>\<open>cSchedule::SetRunningStatus\<close> applies the status to the event; the call is
  recorded as well.
\<close>

definition write_event ::
  "epg_env \<Rightarrow> uchar \<Rightarrow> bool \<Rightarrow> si_section \<Rightarrow> si_event \<Rightarrow> event_ref \<Rightarrow> cEvent \<Rightarrow> loop_state \<Rightarrow> loop_state" where
  "write_event env Tid Process sec ev r e st =
     (let e1 = stamp_table Tid e;
          (e2, st2) =
            (if Tid = 0x4E \<and> getRunningStatus ev \<ge> RunningStatusNotRunning then
               (let RunningStatus =
                      override_status (getSectionNumber sec) (getRunningStatus ev) (runningStatus e1)
                in (e1\<lparr>runningStatus := RunningStatus\<rparr>,
                    st\<lparr>calls := calls st @ [SetRunningStatus (eventID e1) RunningStatus]\<rparr>))
             else (e1, st))
      in if Tid = 0x4E \<and> \<not> Process then put_event r e2 st2
         else
           (let e2v = e2\<lparr>version := getVersionNumber sec\<rparr>;
                e3 = set_descriptor_fields (MergeDescriptors env ev e2v) e2v;
                st3 = st2\<lparr>ChannelsModified := (ChannelsModified st2 \<or> MergeChannels env ev),
                          Modified := True,
                          calls := calls st2 @ [HandleEvent (eventID e3)]\<rparr>
            in put_event r e3 st3))"

text \<open>Lines 144 to 418: one iteration of the event loop.\<close>

definition process_event ::
  "epg_env \<Rightarrow> uchar \<Rightarrow> bool \<Rightarrow> si_section \<Rightarrow> loop_state \<Rightarrow> si_event \<Rightarrow> loop_state" where
  "process_event env Tid Process sec st ev =
     (if HandleEitEvent env (pSchedule st) ev Tid (getVersionNumber sec) then st
      else if bogus ev then st
      else
        (let st1 = st\<lparr>Empty := False\<rparr>
         in if expired env ev then st1
            else
              (case resolve_event env Tid sec ev (track_segment Tid sec ev st1) of
                 Continue st2 \<Rightarrow> st2
               | Write r e st2 \<Rightarrow> write_event env Tid Process sec ev r e st2)))"

subsection \<open>cEIT: the constructor\<close>

text \<open>Lines 419 to 424: after the loop, for table 0x4E.\<close>

definition after_loop :: "uchar \<Rightarrow> si_section \<Rightarrow> loop_state \<Rightarrow> loop_state" where
  "after_loop Tid sec st =
     (if Tid = 0x4E then
        (let st1 = (if Empty st \<and> getSectionNumber sec = 0
                    then st\<lparr>calls := calls st @ [ClrRunningStatus]\<rparr> else st)
         in st1\<lparr>pSchedule := (pSchedule st1)\<lparr>presentSeen := True\<rparr>,
                calls := calls st1 @ [SetPresentSeen]\<rparr>)
      else st)"

text \<open>Lines 425 to 435: completion of the table and pruning.\<close>

definition finish_section :: "uchar \<Rightarrow> bool \<Rightarrow> si_section \<Rightarrow> loop_state \<Rightarrow> loop_state" where
  "finish_section Tid Process sec st =
     (if Process then
        (let (Complete, t1) =
               cEitTables_Processed (EitTables st) Tid (getLastTableId sec) (getSectionNumber sec)
                 (getLastSectionNumber sec) (getSegmentLastSectionNumber sec);
             st1 = st\<lparr>EitTables := t1\<rparr>
         in if Modified st1 \<and> (Tid \<ge> 0x50 \<or> Complete) then
              (let st2 = (if Tid = 0x4E \<and> getLastSectionNumber sec = 1
                          then st1\<lparr>SegmentStart := tableStart t1, SegmentEnd := tableEnd t1\<rparr>
                          else st1)
               in st2\<lparr>calls := calls st2 @
                    [SortSchedule,
                     DropOutdated (SegmentStart st2) (SegmentEnd st2) Tid (getVersionNumber sec)]\<rparr>)
            else st1)
      else st)"

text \<open>Lines 132 to 435: from the initialisation of the locals to the pruning.\<close>

definition initial_loop_state :: "cSchedule \<Rightarrow> cEitTables \<Rightarrow> loop_state" where
  "initial_loop_state s t =
     \<lparr> pSchedule = s, EitTables = t, Empty = True, Modified = False, ChannelsModified = False,
       SegmentStart = 0, SegmentEnd = 0, calls = [] \<rparr>"

definition run_loop :: "epg_env \<Rightarrow> uchar \<Rightarrow> bool \<Rightarrow> si_section \<Rightarrow> loop_state \<Rightarrow> loop_state" where
  "run_loop env Tid Process sec st = foldl (process_event env Tid Process sec) st (eventLoop sec)"

definition section_body ::
  "epg_env \<Rightarrow> uchar \<Rightarrow> bool \<Rightarrow> si_section \<Rightarrow> cSchedule \<Rightarrow> cEitTables \<Rightarrow> loop_state" where
  "section_body env Tid Process sec s t =
     finish_section Tid Process sec
       (after_loop Tid sec (run_loop env Tid Process sec (initial_loop_state s t)))"

text \<open>
  The stores the constructor works on: the hash of table trackers, keyed by service id, and
  the schedules, keyed by channel id (source, original network id, transport stream id,
  service id).
\<close>

type_synonym tChannelID = "nat \<times> nat \<times> nat \<times> nat"

record world =
  eitTablesHash :: "nat \<Rightarrow> cEitTables option"
  schedules :: "tChannelID \<Rightarrow> cSchedule option"

text \<open>
  What the constructor reports: for each state key, \<open>None\<close> when the key was never
  obtained, and \<open>Some m\<close> when it was released with \<^verbatim>\<open>Remove(m)\<close>; and the recorded calls.
\<close>

record outcome =
  ChannelsStateKey :: "bool option"
  SchedulesStateKey :: "bool option"
  trace :: "call list"

definition no_keys :: outcome where
  "no_keys = \<lparr> ChannelsStateKey = None, SchedulesStateKey = None, trace = [] \<rparr>"

definition channel_key_only :: outcome where
  "channel_key_only = \<lparr> ChannelsStateKey = Some False, SchedulesStateKey = None, trace = [] \<rparr>"

definition both_keys_unmodified :: outcome where
  "both_keys_unmodified =
     \<lparr> ChannelsStateKey = Some False, SchedulesStateKey = Some False, trace = [] \<rparr>"

text \<open>
  Lines 81 to 439. \<^verbatim>\<open>GetSchedule(Channel, true)\<close> adds an empty schedule when the channel
  has none.
\<close>

definition cEIT :: "epg_env \<Rightarrow> world \<Rightarrow> nat \<Rightarrow> uchar \<Rightarrow> si_section \<Rightarrow> world \<times> outcome" where
  "cEIT env w Source Tid sec =
     (if \<not> CheckCRCAndParse env then (w, no_keys)
      else
        (let HashId = getServiceId sec;
             t0 = (case eitTablesHash w HashId of None \<Rightarrow> new_cEitTables | Some t \<Rightarrow> t);
             (Process, t1) = cEitTables_Check t0 Tid (getVersionNumber sec) (getSectionNumber sec);
             w1 = w\<lparr>eitTablesHash := (eitTablesHash w)(HashId \<mapsto> t1)\<rparr>
         in if Tid \<noteq> 0x4E \<and> \<not> Process then (w1, no_keys)
            else if Now env < VALID_TIME then (w1, no_keys)
            else if \<not> ChannelsLock env then (w1, no_keys)
            else if \<not> ChannelKnown env \<or> IgnoreChannel env then (w1, channel_key_only)
            else if \<not> SchedulesLock env then (w1, channel_key_only)
            else
              (let channelID = (Source, getOriginalNetworkId sec, getTransportStreamId sec,
                                getServiceId sec);
                   s0 = (case schedules w1 channelID of None \<Rightarrow> new_cSchedule | Some s \<Rightarrow> s);
                   (onTp, s1) = OnActualTp s0 Tid;
                   w2 = w1\<lparr>schedules := (schedules w1)(channelID \<mapsto> s1)\<rparr>
               in if onTp \<and> Tid AND 0xF0 = 0x60 then (w2, both_keys_unmodified)
                  else if \<not> BeginSegmentTransfer env then (w2, both_keys_unmodified)
                  else
                    (let st = section_body env Tid Process sec s1 t1
                     in (w2\<lparr>eitTablesHash := (eitTablesHash w2)(HashId \<mapsto> EitTables st),
                            schedules := (schedules w2)(channelID \<mapsto> pSchedule st)\<rparr>,
                         \<lparr> ChannelsStateKey = Some (ChannelsModified st),
                           SchedulesStateKey = Some (Modified st),
                           trace = calls st @ [EndSegmentTransfer (Modified st)] \<rparr>)))))"

text \<open>
  \<^verbatim>\<open>cEitFilter::Process\<close>, line 532: the table ids that reach the constructor.
\<close>

definition eit_table_id :: "uchar \<Rightarrow> bool" where
  "eit_table_id Tid = (Tid = 0x4E \<or> Tid \<ge> 0x50 \<and> Tid \<le> 0x6F)"

subsection \<open>Observations and sample inputs\<close>

text \<open>The running statuses handed to the schedule, in order, with the event id they were for.\<close>

definition statuses_applied :: "call list \<Rightarrow> (nat \<times> int) list" where
  "statuses_applied cs =
     concat (map (\<lambda>c. case c of SetRunningStatus k s \<Rightarrow> [(k, s)] | _ \<Rightarrow> []) cs)"

text \<open>
  An instance of \<open>MergeDescriptors\<close>: what lines 234 to 411 do for an event that carries
  nothing but short-event descriptors, none of them in a preferred language. The first
  short-event descriptor gives title and short text (lines 259 to 267 and 389 to 398), there
  is no description (line 404) and there are no components (line 409).
\<close>

fun first_short_event :: "descriptor list \<Rightarrow> (string \<times> string) option" where
  "first_short_event [] = None"
| "first_short_event (ShortEventDescriptor lang name txt # ds) = Some (name, txt)"
| "first_short_event (d # ds) = first_short_event ds"

definition short_event_merge :: "si_event \<Rightarrow> cEvent \<Rightarrow> cEvent" where
  "short_event_merge ev e =
     (case first_short_event (eventDescriptors ev) of
        None \<Rightarrow> e\<lparr>title := None, shortText := None, description := None, components := []\<rparr>
      | Some (n, t) \<Rightarrow>
          e\<lparr>title := Some n, shortText := Some t, description := None, components := []\<rparr>)"

text \<open>
  A receiver with no EPG handler registered, a clock in November 2023, a linger time of
  three hours, and every lock and channel lookup succeeding.
\<close>

definition plain_env :: epg_env where
  "plain_env =
     \<lparr> Now = 1700000000, EPG_LINGER_TIME = 10800, CheckCRCAndParse = True,
       ChannelsLock = True, ChannelKnown = True, SchedulesLock = True, IgnoreChannel = False,
       BeginSegmentTransfer = True, HandledExternally = False,
       HandleEitEvent = (\<lambda>s ev t v. False), IsUpdate = (\<lambda>k t tid v. False),
       MergeDescriptors = short_event_merge, MergeChannels = (\<lambda>ev. False) \<rparr>"

text \<open>
  A decoded event with one short-event descriptor, a section of version 1 for one service,
  and an event as a schedule stores it.
\<close>

definition sample_event :: "nat \<Rightarrow> time_t \<Rightarrow> int \<Rightarrow> int \<Rightarrow> si_event" where
  "sample_event k t d rs =
     \<lparr> getEventId = k, getStartTime = t, getDuration = d, getRunningStatus = rs,
       eventDescriptors = [ShortEventDescriptor ''deu'' ''News'' ''Evening edition''] \<rparr>"

definition sample_section :: "uchar \<Rightarrow> nat \<Rightarrow> nat \<Rightarrow> si_event list \<Rightarrow> si_section" where
  "sample_section last_tid n l evs =
     \<lparr> getOriginalNetworkId = 1, getTransportStreamId = 1101, getServiceId = 28106,
       getVersionNumber = 1, getSectionNumber = n, getLastSectionNumber = l,
       getSegmentLastSectionNumber = l, getLastTableId = last_tid, eventLoop = evs \<rparr>"

definition stored_event :: "nat \<Rightarrow> time_t \<Rightarrow> int \<Rightarrow> uchar \<Rightarrow> int \<Rightarrow> cEvent" where
  "stored_event k t d tid rs =
     (new_cEvent k)\<lparr>startTime := t, duration := d, tableID := tid, version := 1,
                    runningStatus := rs\<rparr>"

definition sample_schedule :: "cEvent list \<Rightarrow> bool \<Rightarrow> cSchedule" where
  "sample_schedule es tp = \<lparr> events = es, onActualTp = tp, presentSeen = False \<rparr>"

definition sample_channel :: tChannelID where
  "sample_channel = (0, 1, 1101, 28106)"

text \<open>
  The tracker the constructor works on (lines 86 to 91), and the conditions of lines 84 to
  116 under which it goes on to resolve the schedule: the section parses, the gate lets it
  through, the clock is plausible, both state keys are obtained and the channel is known
  and not ignored.
\<close>

definition tables_for :: "world \<Rightarrow> si_section \<Rightarrow> cEitTables" where
  "tables_for w sec =
     (case eitTablesHash w (getServiceId sec) of None \<Rightarrow> new_cEitTables | Some t \<Rightarrow> t)"

definition passes_preconditions :: "epg_env \<Rightarrow> world \<Rightarrow> uchar \<Rightarrow> si_section \<Rightarrow> bool" where
  "passes_preconditions env w Tid sec =
     (CheckCRCAndParse env \<and>
      (Tid = 0x4E \<or>
       fst (cEitTables_Check (tables_for w sec) Tid (getVersionNumber sec) (getSectionNumber sec))) \<and>
      VALID_TIME \<le> Now env \<and> ChannelsLock env \<and> ChannelKnown env \<and> \<not> IgnoreChannel env \<and>
      SchedulesLock env)"

text \<open>A state key is committed unmodified when it was never obtained or released with false.\<close>

definition unmodified :: "bool option \<Rightarrow> bool" where
  "unmodified k = (k = None \<or> k = Some False)"

text \<open>
  The version and the fields of an event that the descriptor merge of lines 232 to 411
  writes, and the calls that concern the running status.
\<close>

definition merged_fields ::
  "cEvent \<Rightarrow> uchar \<times> string option \<times> string option \<times> string option \<times> nat list \<times> int \<times> time_t \<times>
             (nat \<times> nat \<times> string \<times> string) list" where
  "merged_fields e =
     (version e, title e, shortText e, description e, contents e, parentalRating e, vps e,
      components e)"

fun status_call :: "call \<Rightarrow> bool" where
  "status_call (SetRunningStatus k s) = True"
| "status_call ClrRunningStatus = True"
| "status_call SetPresentSeen = True"
| "status_call c = False"


text \<open>
  A store that holds one schedule, for the channel of the sample sections; and a tracker
  that has processed section 0 of a table 0x4E with two sections.
\<close>

definition world_with :: "cSchedule \<Rightarrow> world" where
  "world_with s = \<lparr> eitTablesHash = (\<lambda>k. None), schedules = [sample_channel \<mapsto> s] \<rparr>"


text \<open>
  A schedule keeps the merged fields of another when each event of the other is still at
  its place with the same version and descriptor fields (events may have been added).
\<close>

definition keeps_merged :: "cSchedule \<Rightarrow> cSchedule \<Rightarrow> bool" where
  "keeps_merged s s' =
     (map merged_fields (take (length (events s)) (events s')) = map merged_fields (events s))"

text \<open>
  A tracker that has seen section 0 of version 1 in every slot, and a store with this
  tracker and one schedule.
\<close>

definition seen_tables :: cEitTables where
  "seen_tables =
     new_cEitTables\<lparr>sectionSyncer :=
       (\<lambda>i. new_cSectionSyncer\<lparr>currentVersion := Some 1, sections := [0]\<rparr>)\<rparr>"

definition seen_world :: "cSchedule \<Rightarrow> world" where
  "seen_world s =
     \<lparr> eitTablesHash = [28106 \<mapsto> seen_tables], schedules = [sample_channel \<mapsto> s] \<rparr>"








section \<open>Properties\<close>

subsection \<open>Auxiliary facts\<close>

text \<open>A difference that fits into 32 bits is not changed by the conversion to \<^verbatim>\<open>int\<close>.\<close>

lemma to_int32_id: "- (2 ^ 31) \<le> x \<Longrightarrow> x < 2 ^ 31 \<Longrightarrow> to_int32 x = x"
  by (simp add: to_int32_def)

text \<open>The masks of lines 120 and 168 select the table ids 0x50..0x5F and 0x60..0x6F.\<close>

lemma mask_5x_upto_255:
  "\<forall>n \<in> set [0..<256]. ((of_nat n :: 8 word) AND 0xF0 = 0x50) = (0x50 \<le> n \<and> n \<le> 0x5F)"
  by code_simp

lemma mask_6x_upto_255:
  "\<forall>n \<in> set [0..<256]. ((of_nat n :: 8 word) AND 0xF0 = 0x60) = (0x60 \<le> n \<and> n \<le> 0x6F)"
  by code_simp

lemma tid_5x: "(t AND 0xF0 = 0x50) = (0x50 \<le> t \<and> t \<le> 0x5F)" for t :: uchar
proof -
  have lt: "unat t \<in> set [0..<256]" using unsigned_less [of t] by simp
  from mask_5x_upto_255 lt
  have "((of_nat (unat t) :: 8 word) AND 0xF0 = 0x50) = (0x50 \<le> unat t \<and> unat t \<le> 0x5F)"
    by (rule bspec)
  then show ?thesis by (simp add: word_le_nat_alt)
qed

lemma tid_6x: "(t AND 0xF0 = 0x60) = (0x60 \<le> t \<and> t \<le> 0x6F)" for t :: uchar
proof -
  have lt: "unat t \<in> set [0..<256]" using unsigned_less [of t] by simp
  from mask_6x_upto_255 lt
  have "((of_nat (unat t) :: 8 word) AND 0xF0 = 0x60) = (0x60 \<le> unat t \<and> unat t \<le> 0x6F)"
    by (rule bspec)
  then show ?thesis by (simp add: word_le_nat_alt)
qed

text \<open>A lookup that succeeds returns the index of an event with the key looked for.\<close>

lemma find_index_from_Some:
  "find_index_from P k xs = Some i \<Longrightarrow> k \<le> i \<and> i - k < length xs \<and> P (xs ! (i - k))"
proof (induction xs arbitrary: k)
  case Nil
  then show ?case by simp
next
  case (Cons x xs)
  show ?case
  proof (cases "P x")
    case True
    with Cons.prems show ?thesis by simp
  next
    case False
    with Cons.prems have "find_index_from P (Suc k) xs = Some i" by simp
    from Cons.IH [OF this] show ?thesis by (auto simp: Suc_diff_le nth_Cons')
  qed
qed

lemma GetEventById_Some:
  "GetEventById s k = Some i \<Longrightarrow> i < length (events s) \<and> eventID (events s ! i) = k"
  using find_index_from_Some [of "\<lambda>e. eventID e = k" 0 "events s" i] by (simp add: GetEventById_def)

lemma GetEventByTime_Some:
  "GetEventByTime s k = Some i \<Longrightarrow> i < length (events s) \<and> startTime (events s ! i) = k"
  using find_index_from_Some [of "\<lambda>e. startTime e = k" 0 "events s" i]
  by (simp add: GetEventByTime_def)

text \<open>Every table id that reaches the constructor belongs to exactly one of the two classes.\<close>

lemma eit_table_id_classes:
  "eit_table_id Tid \<Longrightarrow>
     (Tid = 0x4E \<or> 0x50 \<le> Tid \<and> Tid \<le> 0x5F) \<noteq> (0x60 \<le> Tid \<and> Tid \<le> 0x6F)"
  by (auto simp add: eit_table_id_def word_le_nat_alt)


text \<open>What the steps of one iteration leave alone.\<close>

lemma track_segment_keeps:
  "pSchedule (track_segment Tid sec ev st) = pSchedule st"
  "calls (track_segment Tid sec ev st) = calls st"
  "Modified (track_segment Tid sec ev st) = Modified st"
  "ChannelsModified (track_segment Tid sec ev st) = ChannelsModified st"
  "Empty (track_segment Tid sec ev st) = Empty st"
  by (simp_all add: track_segment_def Let_def)

lemma put_event_keeps:
  "calls (put_event r e st) = calls st"
  "Modified (put_event r e st) = Modified st"
  "ChannelsModified (put_event r e st) = ChannelsModified st"
  "Empty (put_event r e st) = Empty st"
  "EitTables (put_event r e st) = EitTables st"
  "SegmentStart (put_event r e st) = SegmentStart st"
  "SegmentEnd (put_event r e st) = SegmentEnd st"
  by (simp_all add: put_event_def split: event_ref.splits)

lemma put_event_Detached: "put_event Detached e st = st"
  by (simp add: put_event_def)

lemma events_put_event:
  "events (pSchedule (put_event (InSchedule i) e st)) = (events (pSchedule st))[i := e]"
  by (simp add: put_event_def)

lemma resolve_event_Write:
  "resolve_event env Tid sec ev st = Write r e st2 \<Longrightarrow>
     calls st2 = calls st \<and> eventID e = getEventId ev \<and> startTime e = getStartTime ev \<and>
     duration e = getDuration ev"
  by (auto simp: resolve_event_def Let_def new_cEvent_def split: if_splits option.splits)

lemma stamp_table_keeps:
  "eventID (stamp_table Tid e) = eventID e"
  "runningStatus (stamp_table Tid e) = runningStatus e"
  "startTime (stamp_table Tid e) = startTime e"
  "duration (stamp_table Tid e) = duration e"
  by (simp_all add: stamp_table_def)

lemma statuses_applied_append:
  "statuses_applied (xs @ ys) = statuses_applied xs @ statuses_applied ys"
  by (simp add: statuses_applied_def)

lemma statuses_applied_simps:
  "statuses_applied [] = []"
  "statuses_applied (SetRunningStatus k s # cs) = (k, s) # statuses_applied cs"
  "statuses_applied (HandleEvent k # cs) = statuses_applied cs"
  "statuses_applied (ClrRunningStatus # cs) = statuses_applied cs"
  "statuses_applied (SetPresentSeen # cs) = statuses_applied cs"
  by (simp_all add: statuses_applied_def)

lemma write_event_statuses:
  "statuses_applied (calls (write_event env 0x4E Process sec ev r e st)) =
     statuses_applied (calls st) @
       (if getRunningStatus ev \<ge> RunningStatusNotRunning
        then [(eventID e, override_status (getSectionNumber sec) (getRunningStatus ev) (runningStatus e))]
        else [])"
  by (simp add: write_event_def Let_def put_event_keeps stamp_table_keeps statuses_applied_append
      statuses_applied_simps)

lemma write_event_Detached:
  "pSchedule (write_event env Tid Process sec ev Detached e st) = pSchedule st"
  by (simp add: write_event_def Let_def put_event_Detached split: prod.splits)

text \<open>
  An event with present/following provenance that a section of another table finds is at
  most marked seen.
\<close>

lemma protected_step:
  assumes "Tid \<noteq> 0x4E"
    and "lookup_event Tid (pSchedule st) ev = Some i"
    and "max (tableID (events (pSchedule st) ! i)) 0x4E = 0x4E"
  shows "events (pSchedule (process_event env Tid Process sec st ev)) = events (pSchedule st) \<or>
         events (pSchedule (process_event env Tid Process sec st ev)) =
           (events (pSchedule st))[i := (events (pSchedule st) ! i)\<lparr>seen := True\<rparr>]"
proof -
  let ?st1 = "track_segment Tid sec ev (st\<lparr>Empty := False\<rparr>)"
  have s1: "pSchedule ?st1 = pSchedule st" by (simp add: track_segment_keeps)
  have r: "resolve_event env Tid sec ev ?st1 =
             (if HandledExternally env then
                (if \<not> IsUpdate env (getEventId ev) (getStartTime ev) Tid (getVersionNumber sec)
                 then Continue ?st1
                 else Write Detached ((new_cEvent (getEventId ev))\<lparr>startTime := getStartTime ev, duration := getDuration ev\<rparr>) ?st1)
              else Continue (put_event (InSchedule i) ((events (pSchedule st) ! i)\<lparr>seen := True\<rparr>) ?st1))"
    using assms by (simp add: resolve_event_def Let_def s1)
  show ?thesis
    by (simp add: process_event_def Let_def r s1 write_event_Detached events_put_event)
qed

text \<open>The fields of an event of the schedule after it was written.\<close>

lemma write_event_fields:
  assumes "i < length (events (pSchedule st))"
  shows "eventID (events (pSchedule (write_event env Tid Process sec ev (InSchedule i) e st)) ! i) = eventID e"
    and "startTime (events (pSchedule (write_event env Tid Process sec ev (InSchedule i) e st)) ! i) = startTime e"
    and "duration (events (pSchedule (write_event env Tid Process sec ev (InSchedule i) e st)) ! i) = duration e"
    and "tableID (events (pSchedule (write_event env Tid Process sec ev (InSchedule i) e st)) ! i) =
           tableID (stamp_table Tid e)"
  using assms
  by (simp_all add: write_event_def Let_def events_put_event set_descriptor_fields_def
      stamp_table_def split: prod.splits)

lemma uchar_above_4E: "0x50 \<le> t \<Longrightarrow> 0x4E < t \<and> max t 0x4E \<noteq> 0x4E" for t :: uchar
  by (auto simp add: word_le_nat_alt word_less_nat_alt max_def)

lemma resolve_existing_4E:
  assumes "\<not> HandledExternally env"
    and "GetEventById (pSchedule st) (getEventId ev) = Some i"
  shows "resolve_event env 0x4E sec ev st =
           Write (InSchedule i)
             ((events (pSchedule st) ! i)\<lparr>seen := True, eventID := getEventId ev,
                 startTime := getStartTime ev, duration := getDuration ev\<rparr>) st"
  using assms by (simp add: resolve_event_def lookup_event_def Let_def)



text \<open>A table id 0x6X does not set the mark of the schedule.\<close>

lemma OnActualTp_6x:
  "Tid AND 0xF0 = 0x60 \<Longrightarrow> OnActualTp s Tid = (onActualTp s, s)"
  by (auto simp add: OnActualTp_def)







text \<open>
  The gate refuses a section whose version is the current one and whose number is marked;
  and a loop over a section of table 0x4E that is not to be processed sets no flag, hands
  over running statuses only, and keeps the merged fields of every event.
\<close>

lemma gate_refuses:
  assumes "currentVersion (sectionSyncer t (Index Tid)) = Some v"
    and "n \<in> set (sections (sectionSyncer t (Index Tid)))"
  shows "cEitTables_Check t Tid v n = (False, t)"
  using assms by (simp add: cEitTables_Check_def syncer_Check_def Let_def)

lemma keeps_merged_refl: "keeps_merged s s"
  by (simp add: keeps_merged_def)

lemma keeps_merged_trans:
  assumes "keeps_merged s s'" and "keeps_merged s' s''"
  shows "keeps_merged s s''"
proof -
  let ?f = "map merged_fields"
  from assms(1) have a: "take (length (events s)) (?f (events s')) = ?f (events s)"
    by (simp add: keeps_merged_def take_map)
  from assms(2) have b: "take (length (events s')) (?f (events s'')) = ?f (events s')"
    by (simp add: keeps_merged_def take_map)
  from a have "length (take (length (events s)) (?f (events s'))) = length (?f (events s))" by simp
  then have le: "length (events s) \<le> length (events s')" by simp
  have "take (length (events s)) (?f (events s'')) =
        take (length (events s)) (take (length (events s')) (?f (events s'')))"
    using le by (simp add: min_def)
  also have "\<dots> = ?f (events s)" by (simp only: b a)
  finally show ?thesis by (simp add: keeps_merged_def take_map)
qed

lemma keeps_merged_update:
  assumes "i < length (events s)" and "merged_fields e = merged_fields (events s ! i)"
  shows "keeps_merged s (s\<lparr>events := (events s)[i := e]\<rparr>)"
  using assms by (simp add: keeps_merged_def map_update list_update_same_conv)

lemma keeps_merged_append:
  "keeps_merged s (s\<lparr>events := (events s @ [x])[length (events s) := e]\<rparr>)"
  by (simp add: keeps_merged_def)

lemma keeps_merged_presentSeen: "keeps_merged s (s\<lparr>presentSeen := b\<rparr>)"
  by (simp add: keeps_merged_def)

lemma merged_fields_stamp:
  "merged_fields (stamp_table Tid e) = merged_fields e"
  "merged_fields (e\<lparr>runningStatus := r\<rparr>) = merged_fields e"
  "merged_fields (e\<lparr>seen := b, eventID := k, startTime := t, duration := d\<rparr>) = merged_fields e"
  by (simp_all add: merged_fields_def stamp_table_def)

lemma write_event_unprocessed:
  "write_event env 0x4E False sec ev r e st =
     (if getRunningStatus ev \<ge> RunningStatusNotRunning
      then put_event r
             ((stamp_table 0x4E e)\<lparr>runningStatus :=
                 override_status (getSectionNumber sec) (getRunningStatus ev) (runningStatus e)\<rparr>)
             (st\<lparr>calls := calls st @
                 [SetRunningStatus (eventID e)
                    (override_status (getSectionNumber sec) (getRunningStatus ev) (runningStatus e))]\<rparr>)
      else put_event r (stamp_table 0x4E e) st)"
  by (simp add: write_event_def Let_def stamp_table_keeps)

lemma resolve_event_flags:
  "resolve_event env Tid sec ev st = Continue st2 \<Longrightarrow>
     Modified st2 = Modified st \<and> ChannelsModified st2 = ChannelsModified st \<and> calls st2 = calls st"
  "resolve_event env Tid sec ev st = Write r e st2 \<Longrightarrow>
     Modified st2 = Modified st \<and> ChannelsModified st2 = ChannelsModified st \<and> calls st2 = calls st"
  by (auto simp add: resolve_event_def Let_def put_event_keeps split: if_splits option.splits)

lemma unprocessed_step_flags:
  "Modified (process_event env 0x4E False sec st ev) = Modified st \<and>
   ChannelsModified (process_event env 0x4E False sec st ev) = ChannelsModified st \<and>
   (list_all status_call (calls st) \<longrightarrow>
      list_all status_call (calls (process_event env 0x4E False sec st ev)))"
proof -
  let ?st1 = "track_segment 0x4E sec ev (st\<lparr>Empty := False\<rparr>)"
  have k: "Modified ?st1 = Modified st" "ChannelsModified ?st1 = ChannelsModified st"
    "calls ?st1 = calls st"
    by (simp_all add: track_segment_keeps)
  show ?thesis
  proof (cases "resolve_event env 0x4E sec ev ?st1")
    case (Continue st2)
    from resolve_event_flags(1) [OF Continue] show ?thesis
      by (simp add: process_event_def Let_def Continue k)
  next
    case (Write r e st2)
    from resolve_event_flags(2) [OF Write] show ?thesis
      by (simp add: process_event_def Let_def Write k write_event_unprocessed put_event_keeps)
  qed
qed

lemma resolve_event_4E_merged:
  "resolve_event env 0x4E sec ev st = Continue st2 \<Longrightarrow> pSchedule st2 = pSchedule st"
  "resolve_event env 0x4E sec ev st = Write r e st2 \<Longrightarrow> merged_fields e' = merged_fields e \<Longrightarrow>
     keeps_merged (pSchedule st) (pSchedule (put_event r e' st2))"
proof -
  show "resolve_event env 0x4E sec ev st = Continue st2 \<Longrightarrow> pSchedule st2 = pSchedule st"
    by (auto simp add: resolve_event_def Let_def split: if_splits option.splits)
next
  assume w: "resolve_event env 0x4E sec ev st = Write r e st2"
    and m: "merged_fields e' = merged_fields e"
  show "keeps_merged (pSchedule st) (pSchedule (put_event r e' st2))"
  proof (cases "lookup_event 0x4E (pSchedule st) ev = None \<or> HandledExternally env")
    case True
    show ?thesis
    proof (cases "HandledExternally env")
      case True
      with w have "r = Detached \<and> st2 = st"
        by (auto simp add: resolve_event_def Let_def split: if_splits)
      then show ?thesis by (simp add: put_event_Detached keeps_merged_refl)
    next
      case False
      with True w have "r = InSchedule (length (events (pSchedule st))) \<and>
          (\<exists>x. pSchedule st2 = (pSchedule st)\<lparr>events := events (pSchedule st) @ [x]\<rparr>)"
        by (auto simp add: resolve_event_def Let_def AddEvent_def split: if_splits)
      then obtain x where r: "r = InSchedule (length (events (pSchedule st)))"
        and s: "pSchedule st2 = (pSchedule st)\<lparr>events := events (pSchedule st) @ [x]\<rparr>" by blast
      show ?thesis
        using keeps_merged_append [of "pSchedule st" x e']
        by (simp add: r put_event_def s)
    qed
  next
    case False
    then obtain i where l: "lookup_event 0x4E (pSchedule st) ev = Some i"
      and h: "\<not> HandledExternally env" by auto
    from l have i: "i < length (events (pSchedule st))"
      using GetEventById_Some [of "pSchedule st" "getEventId ev" i] by (simp add: lookup_event_def)
    from w l h have r: "r = InSchedule i" and s: "st2 = st"
      and e: "e = (events (pSchedule st) ! i)\<lparr>seen := True, eventID := getEventId ev,
                 startTime := getStartTime ev, duration := getDuration ev\<rparr>"
      by (auto simp add: resolve_event_def Let_def)
    from m e have "merged_fields e' = merged_fields (events (pSchedule st) ! i)"
      by (simp add: merged_fields_stamp)
    from keeps_merged_update [OF i this] show ?thesis by (simp add: r s put_event_def)
  qed
qed

lemma unprocessed_step_merged:
  "keeps_merged (pSchedule st) (pSchedule (process_event env 0x4E False sec st ev))"
proof -
  let ?st1 = "track_segment 0x4E sec ev (st\<lparr>Empty := False\<rparr>)"
  have k: "pSchedule ?st1 = pSchedule st" by (simp add: track_segment_keeps)
  show ?thesis
  proof (cases "resolve_event env 0x4E sec ev ?st1")
    case (Continue st2)
    from resolve_event_4E_merged(1) [OF Continue] show ?thesis
      by (simp add: process_event_def Let_def Continue k keeps_merged_refl)
  next
    case (Write r e st2)
    have p: "pSchedule (put_event r e' (st2\<lparr>calls := c\<rparr>)) = pSchedule (put_event r e' st2)" for e' c
      by (simp add: put_event_def split: event_ref.splits)
    from resolve_event_4E_merged(2) [OF Write] show ?thesis
      by (simp add: process_event_def Let_def Write k write_event_unprocessed p
          merged_fields_stamp keeps_merged_refl)
  qed
qed

lemma unprocessed_loop:
  "Modified (foldl (process_event env 0x4E False sec) st evs) = Modified st \<and>
   ChannelsModified (foldl (process_event env 0x4E False sec) st evs) = ChannelsModified st \<and>
   (list_all status_call (calls st) \<longrightarrow>
      list_all status_call (calls (foldl (process_event env 0x4E False sec) st evs))) \<and>
   keeps_merged (pSchedule st) (pSchedule (foldl (process_event env 0x4E False sec) st evs))"
proof (induction evs arbitrary: st)
  case Nil
  show ?case by (simp add: keeps_merged_refl)
next
  case (Cons ev evs)
  from Cons.IH [of "process_event env 0x4E False sec st ev"]
       unprocessed_step_flags [of env sec st ev] unprocessed_step_merged [of st env sec ev]
  show ?case by (auto intro: keeps_merged_trans)
qed

lemma OnActualTp_4E: "OnActualTp s 0x4E = (onActualTp s, s)"
  by (simp add: OnActualTp_def)

lemma unprocessed_body:
  "\<not> Modified (section_body env 0x4E False sec s t)"
  "\<not> ChannelsModified (section_body env 0x4E False sec s t)"
  "list_all status_call (calls (section_body env 0x4E False sec s t))"
  "keeps_merged s (pSchedule (section_body env 0x4E False sec s t))"
proof -
  let ?l = "foldl (process_event env 0x4E False sec) (initial_loop_state s t) (eventLoop sec)"
  from unprocessed_loop [of env sec "initial_loop_state s t" "eventLoop sec"]
  have a: "\<not> Modified ?l" and b: "\<not> ChannelsModified ?l" and c: "list_all status_call (calls ?l)"
    and d: "keeps_merged s (pSchedule ?l)"
    by (simp_all add: initial_loop_state_def)
  have e: "keeps_merged s ((pSchedule ?l)\<lparr>presentSeen := True\<rparr>)"
    using keeps_merged_trans [OF d keeps_merged_presentSeen] .
  show "\<not> Modified (section_body env 0x4E False sec s t)"
    using a by (simp add: section_body_def run_loop_def after_loop_def finish_section_def Let_def)
  show "\<not> ChannelsModified (section_body env 0x4E False sec s t)"
    using b by (simp add: section_body_def run_loop_def after_loop_def finish_section_def Let_def)
  show "list_all status_call (calls (section_body env 0x4E False sec s t))"
    using c by (simp add: section_body_def run_loop_def after_loop_def finish_section_def Let_def)
  show "keeps_merged s (pSchedule (section_body env 0x4E False sec s t))"
    using e by (simp add: section_body_def run_loop_def after_loop_def finish_section_def Let_def)
qed

text \<open>
  A section of table 0x4E that is not to be processed and gives a new start time for an
  event of the schedule.
\<close>

lemma reprocessed_present_event:
  "events (pSchedule (process_event plain_env 0x4E False
      (sample_section 0x4E 0 (Suc 0) [sample_event 100 1700000060 1800 4])
      (initial_loop_state (sample_schedule [stored_event 100 1700000000 1800 0x4E 4] False) t)
      (sample_event 100 1700000060 1800 4))) =
   [(stored_event 100 1700000000 1800 0x4E 4)\<lparr>seen := True, startTime := 1700000060\<rparr>]"
  by (simp add: process_event_def resolve_event_def lookup_event_def GetEventById_def
      track_segment_def write_event_def stamp_table_def override_status_def
      put_event_def Let_def bogus_def expired_def LingerLimit_def SetTableStart_def
      plain_env_def sample_event_def sample_section_def sample_schedule_def stored_event_def
      new_cEvent_def initial_loop_state_def RunningStatusNotRunning_def)

lemma reprocessed_present_body:
  "events (pSchedule (section_body plain_env 0x4E False
      (sample_section 0x4E 0 (Suc 0) [sample_event 100 1700000060 1800 4])
      (sample_schedule [stored_event 100 1700000000 1800 0x4E 4] False) t)) =
   [(stored_event 100 1700000000 1800 0x4E 4)\<lparr>seen := True, startTime := 1700000060\<rparr>]"
proof -
  let ?sec = "sample_section 0x4E 0 (Suc 0) [sample_event 100 1700000060 1800 4]"
  let ?s = "sample_schedule [stored_event 100 1700000000 1800 0x4E 4] False"
  have l: "run_loop plain_env 0x4E False ?sec (initial_loop_state ?s t) =
           process_event plain_env 0x4E False ?sec (initial_loop_state ?s t)
             (sample_event 100 1700000060 1800 4)"
    by (simp add: run_loop_def sample_section_def)
  show ?thesis
    using reprocessed_present_event [of t]
    by (simp add: section_body_def l after_loop_def finish_section_def Let_def)
qed

text \<open>
  The mark of the schedule: a section of a table 0x50 to 0x5F that passes the conditions
  of lines 84 to 116 sets it, and no run of the constructor clears it.
\<close>

lemma put_event_onActualTp:
  "onActualTp (pSchedule (put_event r e st)) = onActualTp (pSchedule st)"
  by (simp add: put_event_def split: event_ref.splits)

lemma resolve_event_onActualTp:
  "resolve_event env Tid sec ev st = Continue st2 \<Longrightarrow>
     onActualTp (pSchedule st2) = onActualTp (pSchedule st)"
  "resolve_event env Tid sec ev st = Write r e st2 \<Longrightarrow>
     onActualTp (pSchedule st2) = onActualTp (pSchedule st)"
  by (auto simp add: resolve_event_def Let_def put_event_onActualTp AddEvent_def
      split: if_splits option.splits)

lemma write_event_onActualTp:
  "onActualTp (pSchedule (write_event env Tid Process sec ev r e st)) = onActualTp (pSchedule st)"
  by (simp add: write_event_def Let_def put_event_onActualTp split: prod.splits)

lemma process_event_onActualTp:
  "onActualTp (pSchedule (process_event env Tid Process sec st ev)) = onActualTp (pSchedule st)"
proof -
  let ?st1 = "track_segment Tid sec ev (st\<lparr>Empty := False\<rparr>)"
  have k: "pSchedule ?st1 = pSchedule st" by (simp add: track_segment_keeps)
  show ?thesis
  proof (cases "resolve_event env Tid sec ev ?st1")
    case (Continue st2)
    from resolve_event_onActualTp(1) [OF Continue] show ?thesis
      by (simp add: process_event_def Let_def Continue k)
  next
    case (Write r e st2)
    from resolve_event_onActualTp(2) [OF Write] show ?thesis
      by (simp add: process_event_def Let_def Write k write_event_onActualTp)
  qed
qed

lemma run_loop_onActualTp:
  "onActualTp (pSchedule (foldl (process_event env Tid Process sec) st evs)) = onActualTp (pSchedule st)"
  by (induction evs arbitrary: st) (simp_all add: process_event_onActualTp)

lemma finish_section_pSchedule:
  "pSchedule (finish_section Tid Process sec st) = pSchedule st"
  by (simp add: finish_section_def Let_def split: prod.splits)

lemma section_body_onActualTp:
  "onActualTp (pSchedule (section_body env Tid Process sec s t)) = onActualTp s"
  by (simp add: section_body_def finish_section_pSchedule after_loop_def Let_def run_loop_def
      run_loop_onActualTp initial_loop_state_def)

lemma OnActualTp_5x:
  "Tid AND 0xF0 = 0x50 \<Longrightarrow> OnActualTp s Tid = (True, s\<lparr>onActualTp := True\<rparr>)"
  by (simp add: OnActualTp_def)

lemma OnActualTp_keeps: "onActualTp s \<Longrightarrow> onActualTp (snd (OnActualTp s Tid))"
  by (simp add: OnActualTp_def Let_def)

lemma received_5X_marks_schedule:
  assumes "0x50 \<le> Tid \<and> Tid \<le> 0x5F" and "passes_preconditions env w Tid sec"
  shows "\<exists>s'. schedules (fst (cEIT env w Source Tid sec))
               (Source, getOriginalNetworkId sec, getTransportStreamId sec, getServiceId sec) = Some s' \<and>
              onActualTp s'"
proof -
  from assms(1) have m: "Tid AND 0xF0 = 0x50" by (simp add: tid_5x)
  then have n: "Tid \<noteq> 0x4E" "Tid AND 0xF0 \<noteq> 0x60" by auto
  obtain p t1 where c: "cEitTables_Check (tables_for w sec) Tid (getVersionNumber sec)
      (getSectionNumber sec) = (p, t1)"
    by (cases "cEitTables_Check (tables_for w sec) Tid (getVersionNumber sec) (getSectionNumber sec)")
  from assms(2) n c have p: "p" by (simp add: passes_preconditions_def)
  from assms(2) show ?thesis
    using c p n m
    by (simp add: cEIT_def Let_def passes_preconditions_def tables_for_def OnActualTp_5x
        section_body_onActualTp)
qed

lemma mark_of_schedule_stays:
  assumes "schedules w (Source, getOriginalNetworkId sec, getTransportStreamId sec, getServiceId sec) = Some s"
    and "onActualTp s"
  shows "\<exists>s'. schedules (fst (cEIT env w Source Tid sec))
               (Source, getOriginalNetworkId sec, getTransportStreamId sec, getServiceId sec) = Some s' \<and>
              onActualTp s'"
proof -
  have s1: "onActualTp (snd (OnActualTp s T))" for T
    using assms(2) by (rule OnActualTp_keeps)
  show ?thesis
    using assms
    by (simp add: cEIT_def Let_def case_prod_unfold section_body_onActualTp s1)
qed











text \<open>
  At the least \<^verbatim>\<open>int\<close> the compiled \<^verbatim>\<open>abs\<close> is negative, so the test of line 471 fails
  and the call does nothing.
\<close>

lemma cTDT_least_int:
  "tdt_diff dvbtim loctim = - (2 ^ 31) \<Longrightarrow> cTDT st dvbtim loctim tcheck tset = (st, NoAction)"
  by (simp add: cTDT_def c_abs_def to_int32_def MAX_TIME_DIFF_def)

subsection \<open>C1: the override of "not running"\<close>

text \<open>
  C1. Table 0x4E; the iteration reaches the running status (no handler claims the event, it
  is not bogus, it has not expired, and an event \<open>e\<close> to write is resolved); the decoded
  status is "not running" and the status of \<open>e\<close> is a different one. In the present slot
  (section number 0), if the status of \<open>e\<close> is "pausing", the status handed to the schedule
  for this event is "pausing"; in the following slot (section number not 0) the status
  handed to the schedule is "undefined". In both cases it is the only status this iteration
  hands over.
\<close>

theorem not_running_override:
  assumes "\<not> HandleEitEvent env (pSchedule st) ev 0x4E (getVersionNumber sec)"
    and "\<not> bogus ev" and "\<not> expired env ev"
    and "resolve_event env 0x4E sec ev (track_segment 0x4E sec ev (st\<lparr>Empty := False\<rparr>)) = Write r e st2"
    and "getRunningStatus ev = RunningStatusNotRunning"
    and "runningStatus e \<noteq> RunningStatusNotRunning"
  shows "(getSectionNumber sec = 0 \<and> runningStatus e = RunningStatusPausing \<longrightarrow>
            statuses_applied (calls (process_event env 0x4E Process sec st ev)) =
              statuses_applied (calls st) @ [(getEventId ev, RunningStatusPausing)]) \<and>
         (getSectionNumber sec \<noteq> 0 \<longrightarrow>
            statuses_applied (calls (process_event env 0x4E Process sec st ev)) =
              statuses_applied (calls st) @ [(getEventId ev, RunningStatusUndefined)])"
proof -
  from resolve_event_Write [OF assms(4)]
  have c: "calls st2 = calls st" and k: "eventID e = getEventId ev"
    by (simp_all add: track_segment_keeps)
  have p: "process_event env 0x4E Process sec st ev = write_event env 0x4E Process sec ev r e st2"
    using assms(1-4) by (simp add: process_event_def)
  show ?thesis
    using assms(5,6)
    by (simp add: p write_event_statuses c k override_status_def RunningStatusNotRunning_def
        RunningStatusPausing_def RunningStatusUndefined_def)
qed

theorem not_running_override_witness:
  "statuses_applied (calls (process_event plain_env 0x4E False
       (sample_section 0x4E 0 1 [sample_event 100 1700000000 1800 1])
       (initial_loop_state (sample_schedule [stored_event 100 1700000000 1800 0x4E 3] False) new_cEitTables)
       (sample_event 100 1700000000 1800 1))) = [(100, RunningStatusPausing)] \<and>
   statuses_applied (calls (process_event plain_env 0x4E False
       (sample_section 0x4E 1 1 [sample_event 100 1700000000 1800 1])
       (initial_loop_state (sample_schedule [stored_event 100 1700000000 1800 0x4E 2] False) new_cEitTables)
       (sample_event 100 1700000000 1800 1))) = [(100, RunningStatusUndefined)]"
proof -
  let ?ev = "sample_event 100 1700000000 1800 1"
  let ?st0 = "initial_loop_state (sample_schedule [stored_event 100 1700000000 1800 0x4E 3] False) new_cEitTables"
  let ?st1 = "initial_loop_state (sample_schedule [stored_event 100 1700000000 1800 0x4E 2] False) new_cEitTables"
  let ?sec0 = "sample_section 0x4E 0 1 [?ev]"
  let ?sec1 = "sample_section 0x4E 1 1 [?ev]"
  have h: "\<not> HandleEitEvent plain_env s ?ev t v" "\<not> bogus ?ev" "\<not> expired plain_env ?ev"
    "getRunningStatus ?ev = RunningStatusNotRunning" for s t v
    by (simp_all add: plain_env_def sample_event_def bogus_def expired_def LingerLimit_def
        RunningStatusNotRunning_def)
  have "\<exists>e st2. resolve_event plain_env 0x4E ?sec0 ?ev (track_segment 0x4E ?sec0 ?ev (?st0\<lparr>Empty := False\<rparr>))
          = Write (InSchedule 0) e st2 \<and> runningStatus e = RunningStatusPausing"
    by (simp add: resolve_event_def lookup_event_def GetEventById_def track_segment_def Let_def
        plain_env_def sample_event_def sample_section_def sample_schedule_def stored_event_def
        new_cEvent_def initial_loop_state_def RunningStatusPausing_def)
  then obtain e0 s0 where r0: "resolve_event plain_env 0x4E ?sec0 ?ev (track_segment 0x4E ?sec0 ?ev (?st0\<lparr>Empty := False\<rparr>))
          = Write (InSchedule 0) e0 s0" and p0: "runningStatus e0 = RunningStatusPausing" by blast
  have "\<exists>e st2. resolve_event plain_env 0x4E ?sec1 ?ev (track_segment 0x4E ?sec1 ?ev (?st1\<lparr>Empty := False\<rparr>))
          = Write (InSchedule 0) e st2 \<and> runningStatus e = RunningStatusStartsInAFewSeconds"
    by (simp add: resolve_event_def lookup_event_def GetEventById_def track_segment_def Let_def
        plain_env_def sample_event_def sample_section_def sample_schedule_def stored_event_def
        new_cEvent_def initial_loop_state_def RunningStatusStartsInAFewSeconds_def)
  then obtain e1 s1 where r1: "resolve_event plain_env 0x4E ?sec1 ?ev (track_segment 0x4E ?sec1 ?ev (?st1\<lparr>Empty := False\<rparr>))
          = Write (InSchedule 0) e1 s1" and p1: "runningStatus e1 = RunningStatusStartsInAFewSeconds" by blast
  have n0: "runningStatus e0 \<noteq> RunningStatusNotRunning"
    by (simp add: p0 RunningStatusPausing_def RunningStatusNotRunning_def)
  have n1: "runningStatus e1 \<noteq> RunningStatusNotRunning"
    by (simp add: p1 RunningStatusStartsInAFewSeconds_def RunningStatusNotRunning_def)
  have c0: "calls ?st0 = []" "getSectionNumber ?sec0 = 0" "getEventId ?ev = 100"
    by (simp_all add: initial_loop_state_def sample_section_def sample_event_def)
  have c1: "calls ?st1 = []" "getSectionNumber ?sec1 \<noteq> 0"
    by (simp_all add: initial_loop_state_def sample_section_def)
  from not_running_override [OF h(1) h(2) h(3) r0 h(4) n0, of False] p0 c0
  have a: "statuses_applied (calls (process_event plain_env 0x4E False ?sec0 ?st0 ?ev)) = [(100, RunningStatusPausing)]"
    by (simp add: statuses_applied_simps)
  from not_running_override [OF h(1) h(2) h(3) r1 h(4) n1, of False] c1 c0(3)
  have b: "statuses_applied (calls (process_event plain_env 0x4E False ?sec1 ?st1 ?ev)) = [(100, RunningStatusUndefined)]"
    by (simp add: statuses_applied_simps)
  from a b show ?thesis by simp
qed

subsection \<open>C2: the key of the lookup\<close>

text \<open>
  C2. For table id 0x4E and for the table ids 0x50 to 0x5F the existing event is looked up
  by the event id of the section's event, and the start time plays no part in the lookup;
  for the table ids 0x60 to 0x6F it is looked up by the exact start time, and the event id
  plays no part. So an event found for a section of the first class carries the section's
  event id, and an event found for a section of the second class starts at the section's
  start time, whatever its event id is.
\<close>

theorem lookup_key_by_table_class:
  "(Tid = 0x4E \<or> 0x50 \<le> Tid \<and> Tid \<le> 0x5F \<longrightarrow>
      lookup_event Tid s ev = GetEventById s (getEventId ev) \<and>
      lookup_event Tid s (ev\<lparr>getStartTime := t'\<rparr>) = lookup_event Tid s ev \<and>
      (\<forall>i. lookup_event Tid s ev = Some i \<longrightarrow>
             i < length (events s) \<and> eventID (events s ! i) = getEventId ev)) \<and>
   (0x60 \<le> Tid \<and> Tid \<le> 0x6F \<longrightarrow>
      lookup_event Tid s ev = GetEventByTime s (getStartTime ev) \<and>
      lookup_event Tid s (ev\<lparr>getEventId := k'\<rparr>) = lookup_event Tid s ev \<and>
      (\<forall>i. lookup_event Tid s ev = Some i \<longrightarrow>
             i < length (events s) \<and> startTime (events s ! i) = getStartTime ev))"
proof -
  have a: "lookup_event Tid s ev = GetEventById s (getEventId ev) \<and>
      lookup_event Tid s (ev\<lparr>getStartTime := t'\<rparr>) = lookup_event Tid s ev \<and>
      (\<forall>i. lookup_event Tid s ev = Some i \<longrightarrow>
             i < length (events s) \<and> eventID (events s ! i) = getEventId ev)"
    if "Tid = 0x4E \<or> 0x50 \<le> Tid \<and> Tid \<le> 0x5F"
  proof -
    from that have c: "Tid = 0x4E \<or> Tid AND 0xF0 = 0x50" by (simp add: tid_5x)
    then have l: "\<And>x. lookup_event Tid s x = GetEventById s (getEventId x)"
      by (simp add: lookup_event_def)
    show ?thesis using GetEventById_Some [of s "getEventId ev"] by (simp add: l)
  qed
  have b: "lookup_event Tid s ev = GetEventByTime s (getStartTime ev) \<and>
      lookup_event Tid s (ev\<lparr>getEventId := k'\<rparr>) = lookup_event Tid s ev \<and>
      (\<forall>i. lookup_event Tid s ev = Some i \<longrightarrow>
             i < length (events s) \<and> startTime (events s ! i) = getStartTime ev)"
    if "0x60 \<le> Tid \<and> Tid \<le> 0x6F"
  proof -
    from that have "Tid AND 0xF0 = 0x60" by (simp add: tid_6x)
    then have c: "Tid \<noteq> 0x4E \<and> Tid AND 0xF0 \<noteq> 0x50" by auto
    then have l: "\<And>x. lookup_event Tid s x = GetEventByTime s (getStartTime x)"
      by (simp add: lookup_event_def)
    show ?thesis using GetEventByTime_Some [of s "getStartTime ev"] by (simp add: l)
  qed
  from a b show ?thesis by blast
qed

theorem lookup_key_by_table_class_witness:
  "lookup_event 0x50 (sample_schedule [stored_event 7 1000 60 0x50 0, stored_event 9 2000 60 0x50 0] True)
      (sample_event 7 2000 60 0) = Some 0 \<and>
   lookup_event 0x60 (sample_schedule [stored_event 7 1000 60 0x50 0, stored_event 9 2000 60 0x50 0] True)
      (sample_event 7 2000 60 0) = Some 1"
proof -
  let ?s = "sample_schedule [stored_event 7 1000 60 0x50 0, stored_event 9 2000 60 0x50 0] True"
  have g1: "GetEventById ?s 7 = Some 0"
    by (simp add: GetEventById_def sample_schedule_def stored_event_def new_cEvent_def)
  have g2: "GetEventByTime ?s 2000 = Some 1"
    by (simp add: GetEventByTime_def sample_schedule_def stored_event_def new_cEvent_def)
  from lookup_key_by_table_class [of "0x50" ?s "sample_event 7 2000 60 0" 0 0]
       lookup_key_by_table_class [of "0x60" ?s "sample_event 7 2000 60 0" 0 0] g1 g2
  show ?thesis by (simp add: sample_event_def)
qed

subsection \<open>C3: tables 0x6X after tables 0x5X\<close>

text \<open>
  C3. The schedule of the section's channel exists and has received data of a table 0x5X
  (its mark \<open>onActualTp\<close> is set); the section has a table id from 0x60 to 0x6F. Then the
  constructor leaves the schedules as they are and makes no call on the schedule or the
  handlers (the event loop is not entered); each state key is either never obtained or
  released with false; and when the section passes the conditions of lines 84 to 116, both
  keys are released with false.
\<close>

theorem schedule_with_5X_ignores_6X:
  assumes "schedules w (Source, getOriginalNetworkId sec, getTransportStreamId sec, getServiceId sec) = Some s"
    and "onActualTp s"
    and "0x60 \<le> Tid \<and> Tid \<le> 0x6F"
  shows "schedules (fst (cEIT env w Source Tid sec)) = schedules w \<and>
         trace (snd (cEIT env w Source Tid sec)) = [] \<and>
         unmodified (ChannelsStateKey (snd (cEIT env w Source Tid sec))) \<and>
         unmodified (SchedulesStateKey (snd (cEIT env w Source Tid sec))) \<and>
         (passes_preconditions env w Tid sec \<longrightarrow>
            snd (cEIT env w Source Tid sec) = both_keys_unmodified)"
proof -
  from assms(3) have m: "Tid AND 0xF0 = 0x60" by (simp add: tid_6x)
  then have n: "Tid \<noteq> 0x4E" by auto
  have u: "(schedules w)((Source, getOriginalNetworkId sec, getTransportStreamId sec, getServiceId sec) \<mapsto> s) = schedules w"
    using assms(1) by (rule map_upd_triv)
  show ?thesis
    using assms(1,2) m n
    by (simp add: cEIT_def Let_def OnActualTp_6x u no_keys_def channel_key_only_def
        both_keys_unmodified_def unmodified_def passes_preconditions_def tables_for_def
        split: prod.splits)
qed

theorem schedule_with_5X_ignores_6X_witness:
  "schedules (fst (cEIT plain_env (world_with (sample_schedule [stored_event 100 1700000000 1800 0x50 0] True))
      0 0x60 (sample_section 0x60 0 0 [sample_event 100 1700000000 1800 0])))
     = schedules (world_with (sample_schedule [stored_event 100 1700000000 1800 0x50 0] True)) \<and>
   snd (cEIT plain_env (world_with (sample_schedule [stored_event 100 1700000000 1800 0x50 0] True))
      0 0x60 (sample_section 0x60 0 0 [sample_event 100 1700000000 1800 0])) = both_keys_unmodified"
proof -
  let ?s = "sample_schedule [stored_event 100 1700000000 1800 0x50 0] True"
  let ?sec = "sample_section 0x60 0 0 [sample_event 100 1700000000 1800 0]"
  have h1: "schedules (world_with ?s)
      (0, getOriginalNetworkId ?sec, getTransportStreamId ?sec, getServiceId ?sec) = Some ?s"
    by (simp add: world_with_def sample_section_def sample_channel_def)
  have h2: "onActualTp ?s" by (simp add: sample_schedule_def)
  have h3: "(0x60 :: uchar) \<le> 0x60 \<and> (0x60 :: uchar) \<le> 0x6F" by simp
  have h4: "passes_preconditions plain_env (world_with ?s) 0x60 ?sec"
    by (simp add: passes_preconditions_def plain_env_def VALID_TIME_def tables_for_def
        world_with_def cEitTables_Check_def syncer_Check_def new_cEitTables_def
        new_cSectionSyncer_def Let_def sample_section_def split: prod.splits)
  from schedule_with_5X_ignores_6X [OF h1 h2 h3, of plain_env] h4
  show ?thesis by simp
qed

subsection \<open>C4: events with present/following provenance\<close>

text \<open>
  C4 as stated fails: the event found is marked seen (line 185) before the provenance is
  tested (line 188). Here an event with provenance 0x4E that was not marked seen is found
  by a section of table 0x50, and it is not the same event afterwards.
\<close>

theorem present_following_event_unchanged_counterexample:
  "(0x50 :: uchar) \<noteq> 0x4E \<and>
   lookup_event 0x50
     (pSchedule (initial_loop_state (sample_schedule [stored_event 100 1700000000 1800 0x4E 4] True) new_cEitTables))
     (sample_event 100 1700000000 1800 0) = Some 0 \<and>
   max (tableID (events (pSchedule (initial_loop_state
        (sample_schedule [stored_event 100 1700000000 1800 0x4E 4] True) new_cEitTables)) ! 0)) 0x4E = 0x4E \<and>
   events (pSchedule (process_event plain_env 0x50 True
       (sample_section 0x50 0 0 [sample_event 100 1700000000 1800 0])
       (initial_loop_state (sample_schedule [stored_event 100 1700000000 1800 0x4E 4] True) new_cEitTables)
       (sample_event 100 1700000000 1800 0))) ! 0
   \<noteq> events (pSchedule (initial_loop_state
        (sample_schedule [stored_event 100 1700000000 1800 0x4E 4] True) new_cEitTables)) ! 0"
  by (simp add: process_event_def resolve_event_def lookup_event_def GetEventById_def
      track_segment_def put_event_def Let_def bogus_def expired_def LingerLimit_def
      plain_env_def sample_event_def sample_section_def sample_schedule_def stored_event_def
      new_cEvent_def initial_loop_state_def)

text \<open>
  C4, amended. An existing event whose provenance table id, raised to at least 0x4E, equals
  0x4E, and that a section with a table id other than 0x4E finds, is left as it was except
  that it may be marked seen: the schedule's events are either unchanged, or unchanged but
  for the seen mark of this event. Event id, start time, duration, texts, descriptor fields,
  version, provenance and running status are never overwritten.
\<close>

theorem present_following_event_protected:
  assumes "Tid \<noteq> 0x4E"
    and "lookup_event Tid (pSchedule st) ev = Some i"
    and "max (tableID (events (pSchedule st) ! i)) 0x4E = 0x4E"
  shows "events (pSchedule (process_event env Tid Process sec st ev)) = events (pSchedule st) \<or>
         events (pSchedule (process_event env Tid Process sec st ev)) =
           (events (pSchedule st))[i := (events (pSchedule st) ! i)\<lparr>seen := True\<rparr>]"
  using assms by (rule protected_step)

theorem present_following_event_protected_witness:
  "events (pSchedule (process_event plain_env 0x50 True
       (sample_section 0x50 0 0 [sample_event 100 1700000000 1800 0])
       (initial_loop_state (sample_schedule [stored_event 100 1700000000 1800 0x4E 4] True) new_cEitTables)
       (sample_event 100 1700000000 1800 0)))
     = [stored_event 100 1700000000 1800 0x4E 4] \<or>
   events (pSchedule (process_event plain_env 0x50 True
       (sample_section 0x50 0 0 [sample_event 100 1700000000 1800 0])
       (initial_loop_state (sample_schedule [stored_event 100 1700000000 1800 0x4E 4] True) new_cEitTables)
       (sample_event 100 1700000000 1800 0)))
     = [(stored_event 100 1700000000 1800 0x4E 4)\<lparr>seen := True\<rparr>]"
proof -
  let ?st = "initial_loop_state (sample_schedule [stored_event 100 1700000000 1800 0x4E 4] True) new_cEitTables"
  let ?ev = "sample_event 100 1700000000 1800 0"
  have h1: "(0x50 :: uchar) \<noteq> 0x4E" by simp
  have h2: "lookup_event 0x50 (pSchedule ?st) ?ev = Some 0"
    by (simp add: lookup_event_def GetEventById_def sample_event_def sample_schedule_def
        stored_event_def new_cEvent_def initial_loop_state_def)
  have h3: "max (tableID (events (pSchedule ?st) ! 0)) 0x4E = 0x4E"
    by (simp add: sample_schedule_def stored_event_def new_cEvent_def initial_loop_state_def)
  have e: "events (pSchedule ?st) = [stored_event 100 1700000000 1800 0x4E 4]"
    by (simp add: sample_schedule_def initial_loop_state_def)
  from present_following_event_protected [OF h1 h2 h3, of plain_env True
         "sample_section 0x50 0 0 [?ev]"]
  show ?thesis by (simp add: e)
qed

subsection \<open>C5: present/following against the schedule tables\<close>

text \<open>
  C5 as stated fails. An event written by table 0x50 (start 1700000000, duration 1800) is
  found by a section of table 0x4E that gives start 1700000060 and duration 3600: the event
  has the section's start time and duration afterwards. In the other direction, the same
  data in a section of table 0x50 do not change an event with provenance 0x4E.
\<close>

theorem present_following_never_overwrites_counterexample:
  "tableID (events (pSchedule (initial_loop_state
        (sample_schedule [stored_event 100 1700000000 1800 0x50 0] True) new_cEitTables)) ! 0) = 0x50 \<and>
   startTime (events (pSchedule (process_event plain_env 0x4E True
       (sample_section 0x4E 0 1 [sample_event 100 1700000060 3600 4])
       (initial_loop_state (sample_schedule [stored_event 100 1700000000 1800 0x50 0] True) new_cEitTables)
       (sample_event 100 1700000060 3600 4))) ! 0) = 1700000060 \<and>
   duration (events (pSchedule (process_event plain_env 0x4E True
       (sample_section 0x4E 0 1 [sample_event 100 1700000060 3600 4])
       (initial_loop_state (sample_schedule [stored_event 100 1700000000 1800 0x50 0] True) new_cEitTables)
       (sample_event 100 1700000060 3600 4))) ! 0) = 3600 \<and>
   startTime (events (pSchedule (process_event plain_env 0x50 True
       (sample_section 0x50 0 0 [sample_event 100 1700000060 3600 4])
       (initial_loop_state (sample_schedule [stored_event 100 1700000000 1800 0x4E 0] True) new_cEitTables)
       (sample_event 100 1700000060 3600 4))) ! 0) = 1700000000"
  by (simp add: process_event_def resolve_event_def lookup_event_def GetEventById_def
      track_segment_def write_event_def stamp_table_def override_status_def
      set_descriptor_fields_def short_event_merge_def put_event_def Let_def bogus_def
      expired_def LingerLimit_def SetTableStart_def SetTableEnd_def
      plain_env_def sample_event_def sample_section_def sample_schedule_def stored_event_def
      new_cEvent_def initial_loop_state_def RunningStatusNotRunning_def)

text \<open>
  C5, amended. The code has the two directions the other way round. A section of table
  0x4E that finds (by event id) an event written by a table 0x50 to 0x5F overwrites its
  event id, start time and duration with the section's values and stamps it with
  provenance 0x4E; this holds for every event of the section that no handler claims, that
  is not bogus and has not expired, on a channel that is not handled externally. A section
  of a table 0x50 to 0x5F that finds an event with provenance 0x4E leaves its event id,
  start time, duration and provenance as they are.
\<close>

theorem present_following_overwrites_schedule_data:
  "(\<not> HandleEitEvent env (pSchedule st) ev 0x4E (getVersionNumber sec) \<and> \<not> bogus ev \<and>
    \<not> expired env ev \<and> \<not> HandledExternally env \<and>
    GetEventById (pSchedule st) (getEventId ev) = Some i \<and>
    0x50 \<le> tableID (events (pSchedule st) ! i) \<and> tableID (events (pSchedule st) ! i) \<le> 0x5F \<longrightarrow>
      (let e' = events (pSchedule (process_event env 0x4E Process sec st ev)) ! i
       in eventID e' = getEventId ev \<and> startTime e' = getStartTime ev \<and>
          duration e' = getDuration ev \<and> tableID e' = 0x4E)) \<and>
   (0x50 \<le> Tid \<and> Tid \<le> 0x5F \<and>
    GetEventById (pSchedule st) (getEventId ev) = Some i \<and>
    tableID (events (pSchedule st) ! i) = 0x4E \<longrightarrow>
      (let e = events (pSchedule st) ! i;
           e' = events (pSchedule (process_event env Tid Process sec st ev)) ! i
       in eventID e' = eventID e \<and> startTime e' = startTime e \<and>
          duration e' = duration e \<and> tableID e' = 0x4E))"
proof (intro conjI impI)
  assume h: "\<not> HandleEitEvent env (pSchedule st) ev 0x4E (getVersionNumber sec) \<and> \<not> bogus ev \<and>
    \<not> expired env ev \<and> \<not> HandledExternally env \<and>
    GetEventById (pSchedule st) (getEventId ev) = Some i \<and>
    0x50 \<le> tableID (events (pSchedule st) ! i) \<and> tableID (events (pSchedule st) ! i) \<le> 0x5F"
  let ?st1 = "track_segment 0x4E sec ev (st\<lparr>Empty := False\<rparr>)"
  let ?e = "(events (pSchedule st) ! i)\<lparr>seen := True, eventID := getEventId ev,
                 startTime := getStartTime ev, duration := getDuration ev\<rparr>"
  have s1: "pSchedule ?st1 = pSchedule st" by (simp add: track_segment_keeps)
  from h have i: "i < length (events (pSchedule ?st1))"
    using GetEventById_Some [of "pSchedule st" "getEventId ev" i] by (simp add: s1)
  from h have r: "resolve_event env 0x4E sec ev ?st1 = Write (InSchedule i) ?e ?st1"
    using resolve_existing_4E [of env ?st1 ev i sec] by (simp add: s1)
  from h have p: "process_event env 0x4E Process sec st ev =
                    write_event env 0x4E Process sec ev (InSchedule i) ?e ?st1"
    by (simp add: process_event_def Let_def r)
  from h have t: "tableID (stamp_table 0x4E ?e) = 0x4E"
    using uchar_above_4E [of "tableID (events (pSchedule st) ! i)"] by (simp add: stamp_table_def)
  show "let e' = events (pSchedule (process_event env 0x4E Process sec st ev)) ! i
       in eventID e' = getEventId ev \<and> startTime e' = getStartTime ev \<and>
          duration e' = getDuration ev \<and> tableID e' = 0x4E"
    by (simp add: p write_event_fields [OF i] t)
next
  assume h: "0x50 \<le> Tid \<and> Tid \<le> 0x5F \<and>
    GetEventById (pSchedule st) (getEventId ev) = Some i \<and>
    tableID (events (pSchedule st) ! i) = 0x4E"
  then have m: "Tid AND 0xF0 = 0x50" by (simp add: tid_5x)
  from h have n: "Tid \<noteq> 0x4E" by auto
  from h m have l: "lookup_event Tid (pSchedule st) ev = Some i" by (simp add: lookup_event_def)
  from h have x: "max (tableID (events (pSchedule st) ! i)) 0x4E = 0x4E" by simp
  from h have i: "i < length (events (pSchedule st))"
    using GetEventById_Some [of "pSchedule st" "getEventId ev" i] by simp
  from protected_step [OF n l x, of env Process sec] i h
  show "let e = events (pSchedule st) ! i;
           e' = events (pSchedule (process_event env Tid Process sec st ev)) ! i
       in eventID e' = eventID e \<and> startTime e' = startTime e \<and>
          duration e' = duration e \<and> tableID e' = 0x4E"
    by (auto simp add: Let_def)
qed

theorem present_following_overwrites_schedule_data_witness:
  "(let e' = events (pSchedule (process_event plain_env 0x4E True
       (sample_section 0x4E 0 1 [sample_event 100 1700000060 3600 4])
       (initial_loop_state (sample_schedule [stored_event 100 1700000000 1800 0x50 0] True) new_cEitTables)
       (sample_event 100 1700000060 3600 4))) ! 0
    in eventID e' = 100 \<and> startTime e' = 1700000060 \<and> duration e' = 3600 \<and> tableID e' = 0x4E) \<and>
   (let e' = events (pSchedule (process_event plain_env 0x50 True
       (sample_section 0x50 0 0 [sample_event 100 1700000060 3600 4])
       (initial_loop_state (sample_schedule [stored_event 100 1700000000 1800 0x4E 0] True) new_cEitTables)
       (sample_event 100 1700000060 3600 4))) ! 0
    in eventID e' = 100 \<and> startTime e' = 1700000000 \<and> duration e' = 1800 \<and> tableID e' = 0x4E)"
proof -
  let ?ev = "sample_event 100 1700000060 3600 4"
  let ?stA = "initial_loop_state (sample_schedule [stored_event 100 1700000000 1800 0x50 0] True) new_cEitTables"
  let ?stB = "initial_loop_state (sample_schedule [stored_event 100 1700000000 1800 0x4E 0] True) new_cEitTables"
  have hA: "\<not> HandleEitEvent plain_env (pSchedule ?stA) ?ev 0x4E v \<and> \<not> bogus ?ev \<and>
    \<not> expired plain_env ?ev \<and> \<not> HandledExternally plain_env \<and>
    GetEventById (pSchedule ?stA) (getEventId ?ev) = Some 0 \<and>
    0x50 \<le> tableID (events (pSchedule ?stA) ! 0) \<and> tableID (events (pSchedule ?stA) ! 0) \<le> 0x5F" for v
    by (simp add: plain_env_def sample_event_def bogus_def expired_def LingerLimit_def
        GetEventById_def sample_schedule_def stored_event_def new_cEvent_def initial_loop_state_def)
  have hB: "(0x50 :: uchar) \<le> 0x50 \<and> (0x50 :: uchar) \<le> 0x5F \<and>
    GetEventById (pSchedule ?stB) (getEventId ?ev) = Some 0 \<and>
    tableID (events (pSchedule ?stB) ! 0) = 0x4E"
    by (simp add: sample_event_def GetEventById_def sample_schedule_def stored_event_def
        new_cEvent_def initial_loop_state_def)
  have v: "getEventId ?ev = 100" "getStartTime ?ev = 1700000060" "getDuration ?ev = 3600"
    by (simp_all add: sample_event_def)
  have eB: "events (pSchedule ?stB) ! 0 = stored_event 100 1700000000 1800 0x4E 0"
    by (simp add: sample_schedule_def initial_loop_state_def)
  have fB: "eventID (stored_event 100 1700000000 1800 0x4E 0) = 100"
    "startTime (stored_event 100 1700000000 1800 0x4E 0) = 1700000000"
    "duration (stored_event 100 1700000000 1800 0x4E 0) = 1800"
    by (simp_all add: stored_event_def new_cEvent_def)
  from present_following_overwrites_schedule_data
         [of plain_env ?stA ?ev "sample_section 0x4E 0 1 [?ev]" 0 True "0x50"] hA
  have a: "let e' = events (pSchedule (process_event plain_env 0x4E True
       (sample_section 0x4E 0 1 [?ev]) ?stA ?ev)) ! 0
    in eventID e' = 100 \<and> startTime e' = 1700000060 \<and> duration e' = 3600 \<and> tableID e' = 0x4E"
    by (simp add: v)
  from present_following_overwrites_schedule_data
         [of plain_env ?stB ?ev "sample_section 0x50 0 0 [?ev]" 0 True "0x50"] hB
  have b: "let e' = events (pSchedule (process_event plain_env 0x50 True
       (sample_section 0x50 0 0 [?ev]) ?stB ?ev)) ! 0
    in eventID e' = 100 \<and> startTime e' = 1700000000 \<and> duration e' = 1800 \<and> tableID e' = 0x4E"
    by (simp add: eB fB Let_def)
  from a b show ?thesis by simp
qed

subsection \<open>C6: a section that was already seen\<close>

text \<open>
  C6 as stated fails for table 0x4E: more than the running status is taken from the
  section. The tracker has seen section 0 of version 1, and the schedule holds event 100
  with start time 1700000000. The section arrives again and gives start time 1700000060
  for event 100: the gate answers false, the schedule key is released with false, and the
  event of the schedule starts at 1700000060 afterwards.
\<close>

theorem seen_section_only_status_counterexample:
  "cEitTables_Check seen_tables 0x4E 1 0 = (False, seen_tables) \<and>
   SchedulesStateKey (snd (cEIT plain_env
      (seen_world (sample_schedule [stored_event 100 1700000000 1800 0x4E 4] False)) 0 0x4E
      (sample_section 0x4E 0 1 [sample_event 100 1700000060 1800 4]))) = Some False \<and>
   map_option (map startTime \<circ> events)
     (schedules (seen_world (sample_schedule [stored_event 100 1700000000 1800 0x4E 4] False))
        sample_channel) = Some [1700000000] \<and>
   map_option (map startTime \<circ> events)
     (schedules (fst (cEIT plain_env
        (seen_world (sample_schedule [stored_event 100 1700000000 1800 0x4E 4] False)) 0 0x4E
        (sample_section 0x4E 0 1 [sample_event 100 1700000060 1800 4]))) sample_channel)
     = Some [1700000060]"
proof -
  let ?s = "sample_schedule [stored_event 100 1700000000 1800 0x4E 4] False"
  let ?sec = "sample_section 0x4E 0 (Suc 0) [sample_event 100 1700000060 1800 4]"
  have g: "cEitTables_Check seen_tables 0x4E 1 0 = (False, seen_tables)"
    by (rule gate_refuses) (simp_all add: seen_tables_def)
  have h: "getSectionNumber ?sec = 0" "getVersionNumber ?sec = 1" "getServiceId ?sec = 28106"
    "getOriginalNetworkId ?sec = 1" "getTransportStreamId ?sec = 1101"
    by (simp_all add: sample_section_def)
  have env: "CheckCRCAndParse plain_env" "\<not> Now plain_env < VALID_TIME" "ChannelsLock plain_env"
    "ChannelKnown plain_env" "\<not> IgnoreChannel plain_env" "SchedulesLock plain_env"
    "BeginSegmentTransfer plain_env"
    by (simp_all add: plain_env_def VALID_TIME_def)
  have st: "startTime ((stored_event 100 1700000000 1800 0x4E 4)\<lparr>seen := True, startTime := 1700000060\<rparr>)
              = 1700000060" "startTime (stored_event 100 1700000000 1800 0x4E 4) = 1700000000"
    by (simp_all add: stored_event_def)
  have ev: "events ?s = [stored_event 100 1700000000 1800 0x4E 4]"
    by (simp add: sample_schedule_def)
  show ?thesis
    by (simp add: cEIT_def Let_def seen_world_def sample_channel_def h env g OnActualTp_4E
        unprocessed_body reprocessed_present_body st ev)
qed

text \<open>
  C6, amended. The tracker of the service has the version of the section as its current
  version for the section's table and has the section number marked seen. For a table id
  other than 0x4E the constructor then stops at the gate: the stores are as before and no
  state key is obtained. For table id 0x4E each state key is either never obtained or
  released with false; the only calls made are those that concern the running status,
  followed by \<^verbatim>\<open>EndSegmentTransfer(false)\<close>; every event of the schedule keeps its
  version and its descriptor fields (the other fields of an event may be written, and
  events may be added); and when the section passes the conditions of lines 84 to 130,
  both keys are released with false.
\<close>

theorem seen_section_keys_unmodified:
  assumes "eitTablesHash w (getServiceId sec) = Some t"
    and "currentVersion (sectionSyncer t (Index Tid)) = Some (getVersionNumber sec)"
    and "getSectionNumber sec \<in> set (sections (sectionSyncer t (Index Tid)))"
  shows "(Tid \<noteq> 0x4E \<longrightarrow> cEIT env w Source Tid sec = (w, no_keys)) \<and>
         (Tid = 0x4E \<longrightarrow>
            unmodified (ChannelsStateKey (snd (cEIT env w Source Tid sec))) \<and>
            unmodified (SchedulesStateKey (snd (cEIT env w Source Tid sec))) \<and>
            list_all (\<lambda>c. status_call c \<or> c = EndSegmentTransfer False)
              (trace (snd (cEIT env w Source Tid sec))) \<and>
            (\<forall>s'. schedules (fst (cEIT env w Source Tid sec))
                    (Source, getOriginalNetworkId sec, getTransportStreamId sec, getServiceId sec) = Some s' \<longrightarrow>
                  keeps_merged
                    (case schedules w (Source, getOriginalNetworkId sec, getTransportStreamId sec,
                                       getServiceId sec) of None \<Rightarrow> new_cSchedule | Some s \<Rightarrow> s) s') \<and>
            (passes_preconditions env w Tid sec \<and> BeginSegmentTransfer env \<longrightarrow>
               ChannelsStateKey (snd (cEIT env w Source Tid sec)) = Some False \<and>
               SchedulesStateKey (snd (cEIT env w Source Tid sec)) = Some False \<and>
               EndSegmentTransfer False \<in> set (trace (snd (cEIT env w Source Tid sec)))))"
proof -
  let ?cid = "(Source, getOriginalNetworkId sec, getTransportStreamId sec, getServiceId sec)"
  let ?s0 = "case schedules w ?cid of None \<Rightarrow> new_cSchedule | Some s \<Rightarrow> s"
  have g: "cEitTables_Check t Tid (getVersionNumber sec) (getSectionNumber sec) = (False, t)"
    using assms(2,3) by (rule gate_refuses)
  have u: "(eitTablesHash w)(getServiceId sec \<mapsto> t) = eitTablesHash w"
    using assms(1) by (rule map_upd_triv)
  have la: "list_all (\<lambda>c. status_call c \<or> c = EndSegmentTransfer False) cs" if "list_all status_call cs" for cs
    using that by (induction cs) auto
  have A: "Tid \<noteq> 0x4E \<longrightarrow> cEIT env w Source Tid sec = (w, no_keys)"
    by (simp add: cEIT_def Let_def assms(1) g u)
  have B: "unmodified (ChannelsStateKey (snd (cEIT env w Source 0x4E sec))) \<and>
            unmodified (SchedulesStateKey (snd (cEIT env w Source 0x4E sec))) \<and>
            list_all (\<lambda>c. status_call c \<or> c = EndSegmentTransfer False)
              (trace (snd (cEIT env w Source 0x4E sec))) \<and>
            (\<forall>s'. schedules (fst (cEIT env w Source 0x4E sec)) ?cid = Some s' \<longrightarrow> keeps_merged ?s0 s') \<and>
            (passes_preconditions env w 0x4E sec \<and> BeginSegmentTransfer env \<longrightarrow>
               ChannelsStateKey (snd (cEIT env w Source 0x4E sec)) = Some False \<and>
               SchedulesStateKey (snd (cEIT env w Source 0x4E sec)) = Some False \<and>
               EndSegmentTransfer False \<in> set (trace (snd (cEIT env w Source 0x4E sec))))"
    if T: "Tid = 0x4E"
  proof -
    from g T have g4: "cEitTables_Check t 0x4E (getVersionNumber sec) (getSectionNumber sec) = (False, t)"
      by simp
    show ?thesis
      by (simp add: cEIT_def Let_def assms(1) g4 u OnActualTp_4E unmodified_def no_keys_def
          channel_key_only_def both_keys_unmodified_def passes_preconditions_def
          unprocessed_body la keeps_merged_refl split: option.splits)
  qed
  from A B show ?thesis by blast
qed

theorem seen_section_keys_unmodified_witness:
  "cEIT plain_env (seen_world (sample_schedule [stored_event 100 1700000000 1800 0x4E 4] False)) 0 0x50
      (sample_section 0x50 0 0 [sample_event 100 1700000000 1800 0])
     = (seen_world (sample_schedule [stored_event 100 1700000000 1800 0x4E 4] False), no_keys) \<and>
   ChannelsStateKey (snd (cEIT plain_env
      (seen_world (sample_schedule [stored_event 100 1700000000 1800 0x4E 4] False)) 0 0x4E
      (sample_section 0x4E 0 1 [sample_event 100 1700000000 1800 1]))) = Some False \<and>
   SchedulesStateKey (snd (cEIT plain_env
      (seen_world (sample_schedule [stored_event 100 1700000000 1800 0x4E 4] False)) 0 0x4E
      (sample_section 0x4E 0 1 [sample_event 100 1700000000 1800 1]))) = Some False"
proof -
  let ?w = "seen_world (sample_schedule [stored_event 100 1700000000 1800 0x4E 4] False)"
  let ?secA = "sample_section 0x50 0 0 [sample_event 100 1700000000 1800 0]"
  let ?secB = "sample_section 0x4E 0 1 [sample_event 100 1700000000 1800 1]"
  have hA: "eitTablesHash ?w (getServiceId ?secA) = Some seen_tables"
    "currentVersion (sectionSyncer seen_tables (Index 0x50)) = Some (getVersionNumber ?secA)"
    "getSectionNumber ?secA \<in> set (sections (sectionSyncer seen_tables (Index 0x50)))"
    by (simp_all add: seen_world_def seen_tables_def sample_section_def)
  have hB: "eitTablesHash ?w (getServiceId ?secB) = Some seen_tables"
    "currentVersion (sectionSyncer seen_tables (Index 0x4E)) = Some (getVersionNumber ?secB)"
    "getSectionNumber ?secB \<in> set (sections (sectionSyncer seen_tables (Index 0x4E)))"
    by (simp_all add: seen_world_def seen_tables_def sample_section_def)
  have p: "passes_preconditions plain_env ?w 0x4E ?secB \<and> BeginSegmentTransfer plain_env"
    by (simp add: passes_preconditions_def plain_env_def VALID_TIME_def)
  from seen_section_keys_unmodified [OF hA, of plain_env 0]
       seen_section_keys_unmodified [OF hB, of plain_env 0] p
  show ?thesis by simp
qed

subsection \<open>C7: when pruning runs and with which window\<close>




subsection \<open>C8: bogus events and NVOD reference events\<close>

text \<open>
  C8. The events dropped as bogus are those with start time zero and those with a positive
  start time and duration zero; they leave the state of the loop untouched. An NVOD
  reference event (negative start time) passes this test, as the comment at line 149
  intends, but the linger test of line 154 then ends its iteration whenever its start time
  plus its duration lies before now minus the linger time: the event clears \<open>Empty\<close>
  and is otherwise dropped, it is neither looked up nor created.
\<close>

theorem nvod_event_dropped_by_linger_check:
  "(bogus ev = (getStartTime ev = 0 \<or> 0 < getStartTime ev \<and> getDuration ev = 0)) \<and>
   (bogus ev \<longrightarrow> process_event env Tid Process sec st ev = st) \<and>
   (getStartTime ev < 0 \<and> getStartTime ev + getDuration ev < Now env - EPG_LINGER_TIME env \<and>
    \<not> HandleEitEvent env (pSchedule st) ev Tid (getVersionNumber sec) \<longrightarrow>
      \<not> bogus ev \<and> process_event env Tid Process sec st ev = st\<lparr>Empty := False\<rparr>)"
  by (simp add: process_event_def bogus_def expired_def LingerLimit_def)

theorem nvod_event_dropped_by_linger_check_witness:
  "\<not> bogus (sample_event 7 (- 1) 3600 0) \<and>
   process_event plain_env 0x50 True (sample_section 0x50 0 0 [sample_event 7 (- 1) 3600 0])
       (initial_loop_state (sample_schedule [] True) new_cEitTables) (sample_event 7 (- 1) 3600 0)
     = (initial_loop_state (sample_schedule [] True) new_cEitTables)\<lparr>Empty := False\<rparr>"
proof -
  let ?ev = "sample_event 7 (- 1) 3600 0"
  let ?st = "initial_loop_state (sample_schedule [] True) new_cEitTables"
  let ?sec = "sample_section 0x50 0 0 [?ev]"
  have h: "getStartTime ?ev < 0 \<and>
           getStartTime ?ev + getDuration ?ev < Now plain_env - EPG_LINGER_TIME plain_env \<and>
           \<not> HandleEitEvent plain_env (pSchedule ?st) ?ev 0x50 (getVersionNumber ?sec)"
    by (simp add: sample_event_def plain_env_def)
  from nvod_event_dropped_by_linger_check [of ?ev plain_env "0x50" True ?sec ?st] h
  show ?thesis by blast
qed

subsection \<open>C9: clock synchronisation\<close>




subsection \<open>C10: events that ended before the linger limit\<close>



end
